theory Spec2Isabelle
  imports Complex_Main "HOL-Library.Word"
begin

unbundle bit_operations_syntax

section \<open>Data model\<close>

text \<open>
  The program (\<^verbatim>\<open>src/image_processor.py\<close>) keeps its images as numpy arrays of
  unsigned bytes: a grayscale image has shape \<^verbatim>\<open>(height, width)\<close>, a colour image
  shape \<^verbatim>\<open>(height, width, 3)\<close> in BGR order. A sample is an 8-bit word, a plane is
  a list of rows, and an image is either one plane or the three channel planes that
  \<^verbatim>\<open>cv2.split\<close> gives. The two constructors are what \<^verbatim>\<open>len(image.shape)\<close>
  tells apart.

  Python floats are modelled as exact rationals (reals where a sine or cosine is
  taken): the rounding error of binary floating point is outside the model.
\<close>

type_synonym uint8 = "8 word"
type_synonym plane = "uint8 list list"

datatype image = Gray plane | BGR plane plane plane

fun channels :: "image \<Rightarrow> nat" where
  "channels (Gray p) = 1"
| "channels (BGR b g r) = 3"

definition height :: "'a list list \<Rightarrow> nat" where
  "height p = length p"

definition width :: "'a list list \<Rightarrow> nat" where
  "width p = (case p of [] \<Rightarrow> 0 | row # _ \<Rightarrow> length row)"

text \<open>A numpy array is rectangular: every row has the width of the first.\<close>

definition rectangular :: "'a list list \<Rightarrow> bool" where
  "rectangular p = list_all (\<lambda>row. length row = width p) p"

text \<open>\<^verbatim>\<open>image.shape[:2]\<close>: height and width, read from the first plane.\<close>

fun shape2 :: "image \<Rightarrow> nat \<times> nat" where
  "shape2 (Gray p) = (height p, width p)"
| "shape2 (BGR b g r) = (height b, width b)"

text \<open>An operation that works on every channel by itself.\<close>

fun per_channel :: "(plane \<Rightarrow> plane) \<Rightarrow> image \<Rightarrow> image" where
  "per_channel f (Gray p) = Gray (f p)"
| "per_channel f (BGR b g r) = BGR (f b) (f g) (f r)"

text \<open>
  A plane with the shape of \<open>src\<close> whose sample in row \<open>y\<close>, column \<open>x\<close> is
  \<open>f y x\<close>: the frame of every OpenCV filter whose destination has the size of its
  source.
\<close>

definition tabulate2 :: "'b list list \<Rightarrow> (nat \<Rightarrow> nat \<Rightarrow> 'a) \<Rightarrow> 'a list list" where
  "tabulate2 src f = map (\<lambda>y. map (\<lambda>x. f y x) [0..<length (src ! y)]) [0..<length src]"

section \<open>Python and OpenCV arithmetic\<close>

text \<open>\<^verbatim>\<open>int(x)\<close> on a float truncates towards zero.\<close>

definition py_int :: "'a::floor_ceiling \<Rightarrow> int" where
  "py_int x = (if 0 \<le> x then \<lfloor>x\<rfloor> else \<lceil>x\<rceil>)"

text \<open>
  A slice bound \<^verbatim>\<open>i\<close> on a sequence of length \<open>n\<close>: a negative bound counts from
  the end, and every bound is clipped to the sequence. \<^verbatim>\<open>xs[lo:hi]\<close> is empty when
  the clipped bounds cross.
\<close>

definition slice_bound :: "int \<Rightarrow> nat \<Rightarrow> nat" where
  "slice_bound i n = (if i < 0 then nat (max (i + int n) 0) else min (nat i) n)"

definition py_slice :: "'a list \<Rightarrow> int \<Rightarrow> int \<Rightarrow> 'a list" where
  "py_slice xs lo hi =
     (let l = slice_bound lo (length xs); h = slice_bound hi (length xs)
      in take (h - l) (drop l xs))"

section \<open>Crop\<close>

text \<open>
  \<^verbatim>\<open>apply_crop\<close> (lines 1018-1039). \<open>crop_box\<close> is the pixel rectangle the function
  holds in \<^verbatim>\<open>left, top, right, bottom\<close> when it reaches the slice
  (\<open>top\<close> is a constant of HOL, so the variable is \<open>top'\<close>).
\<close>

definition crop_box :: "nat \<Rightarrow> nat \<Rightarrow> rat \<Rightarrow> rat \<Rightarrow> rat \<Rightarrow> rat \<Rightarrow> int \<times> int \<times> int \<times> int" where
  "crop_box h w left_ratio top_ratio right_ratio bottom_ratio =
     (let left = py_int (of_nat w * left_ratio);
          top' = py_int (of_nat h * top_ratio);
          right = py_int (of_nat w * right_ratio);
          bottom = py_int (of_nat h * bottom_ratio);
          (left, right) = (if left \<ge> right then (0, int w) else (left, right));
          (top', bottom) = (if top' \<ge> bottom then (0, int h) else (top', bottom))
      in (left, top', right, bottom))"

definition crop_plane :: "int \<times> int \<times> int \<times> int \<Rightarrow> 'a list list \<Rightarrow> 'a list list" where
  "crop_plane box p =
     (case box of (left, top', right, bottom) \<Rightarrow>
        map (\<lambda>row. py_slice row left right) (py_slice p top' bottom))"

definition apply_crop :: "image \<Rightarrow> rat \<Rightarrow> rat \<Rightarrow> rat \<Rightarrow> rat \<Rightarrow> image" where
  "apply_crop img left_ratio top_ratio right_ratio bottom_ratio =
     (case shape2 img of (h, w) \<Rightarrow>
        per_channel (crop_plane (crop_box h w left_ratio top_ratio right_ratio bottom_ratio)) img)"

text \<open>
  What the program's arrays always are: rectangular planes, and three planes of one
  shape in a colour image.
\<close>

fun well_formed :: "image \<Rightarrow> bool" where
  "well_formed (Gray p) = rectangular p"
| "well_formed (BGR b g r) =
     (rectangular b \<and> rectangular g \<and> rectangular r \<and>
      height g = height b \<and> width g = width b \<and>
      height r = height b \<and> width r = width b)"

text \<open>
  The spec's example for the crop stage, in its own words: with
  \<^verbatim>\<open>crop(left=0.9, top=0.1, right=0.2, bottom=0.9)\<close> the result has the full width
  and only the rows from \<open>floor(0.1*height)\<close> to \<open>floor(0.9*height)\<close>.
\<close>

definition spec_crop_example :: "image \<Rightarrow> image" where
  "spec_crop_example img =
     (case shape2 img of (h, w) \<Rightarrow>
        per_channel (\<lambda>p. py_slice p \<lfloor>(1 / 10 :: rat) * of_nat h\<rfloor> \<lfloor>(9 / 10 :: rat) * of_nat h\<rfloor>) img)"

text \<open>
  The spec's rule for one axis of the crop rectangle, in its own words: the two
  fractions become pixel coordinates by truncation, and when the low coordinate is not
  below the high one the axis is reset to the full extent \<open>0..n\<close>.
\<close>

definition spec_crop_axis :: "nat \<Rightarrow> rat \<Rightarrow> rat \<Rightarrow> int \<times> int" where
  "spec_crop_axis n lo hi =
     (if py_int (of_nat n * lo) \<ge> py_int (of_nat n * hi) then (0, int n)
      else (py_int (of_nat n * lo), py_int (of_nat n * hi)))"

section \<open>OpenCV sample arithmetic\<close>

text \<open>
  \<^verbatim>\<open>cvRound\<close> rounds to the nearest integer, a tie to the even one;
  \<^verbatim>\<open>saturate_cast<uchar>\<close> clips an integer to \<open>0..255\<close>. \<open>sample\<close> reads a byte
  as the number the filters compute with.
\<close>

definition cvRound :: "rat \<Rightarrow> int" where
  "cvRound x =
     (let f = \<lfloor>x\<rfloor>; d = x - of_int f
      in if d < 1 / 2 then f else if 1 / 2 < d then f + 1 else if even f then f else f + 1)"

definition saturate_cast :: "int \<Rightarrow> uint8" where
  "saturate_cast v = word_of_int (max 0 (min 255 v))"

definition sample :: "uint8 \<Rightarrow> rat" where
  "sample s = of_nat (unat s)"

text \<open>
  \<^verbatim>\<open>cv2.convertScaleAbs(src, alpha, beta)\<close>: on each sample, scale, add, take the
  absolute value, and convert to a byte with saturation:
  \<open>dst = saturate_cast<uchar>(|src*alpha + beta|)\<close>.
\<close>

definition convertScaleAbs :: "image \<Rightarrow> rat \<Rightarrow> rat \<Rightarrow> image" where
  "convertScaleAbs src alpha beta =
     per_channel (map (map (\<lambda>s. saturate_cast (cvRound \<bar>sample s * alpha + beta\<bar>)))) src"

text \<open>
  \<^verbatim>\<open>cv2.addWeighted(src1, alpha, src2, beta, gamma)\<close> on two planes of one shape:
  \<open>dst = saturate_cast<uchar>(src1*alpha + src2*beta + gamma)\<close>.
\<close>

definition addWeighted :: "plane \<Rightarrow> rat \<Rightarrow> plane \<Rightarrow> rat \<Rightarrow> rat \<Rightarrow> plane" where
  "addWeighted src1 alpha src2 beta gamma =
     map2 (map2 (\<lambda>s1 s2. saturate_cast (cvRound (sample s1 * alpha + sample s2 * beta + gamma))))
       src1 src2"

text \<open>
  \<^verbatim>\<open>cv::borderInterpolate\<close> with \<^verbatim>\<open>BORDER_REFLECT_101\<close>, the default border of
  \<^verbatim>\<open>filter2D\<close>: a coordinate outside \<open>0..len-1\<close> is mirrored about the first or
  the last sample (\<open>gfedcb|abcdefgh|gfedcba\<close>). Mirroring until the coordinate is inside
  has period \<open>2*(len-1)\<close>.
\<close>

definition borderInterpolate :: "int \<Rightarrow> nat \<Rightarrow> nat" where
  "borderInterpolate p len =
     (if 0 \<le> p \<and> p < int len then nat p
      else if len = 1 then 0
      else let period = 2 * (int len - 1); m = p mod period
           in if m < int len then nat m else nat (period - m))"

text \<open>
  \<^verbatim>\<open>cv2.filter2D(src, -1, kernel)\<close> on one plane: the correlation of the plane with
  the kernel', anchored at the kernel's centre, borders mirrored, the sum converted to a
  byte with saturation.
\<close>

definition filter2D :: "plane \<Rightarrow> rat list list \<Rightarrow> plane" where
  "filter2D src kernel' =
     (let kh = length kernel'; kw = width kernel';
          ay = int (kh div 2); ax = int (kw div 2)
      in tabulate2 src (\<lambda>y x.
           saturate_cast (cvRound (sum_list
             (concat (map (\<lambda>i. map (\<lambda>j.
                 kernel' ! i ! j *
                 sample (src ! borderInterpolate (int y + int i - ay) (height src)
                             ! borderInterpolate (int x + int j - ax) (width src)))
               [0..<kw]) [0..<kh]))))))"

section \<open>Photometric operations\<close>

text \<open>\<^verbatim>\<open>adjust_contrast\<close> (lines 927-929).\<close>

definition adjust_contrast :: "image \<Rightarrow> rat \<Rightarrow> image" where
  "adjust_contrast img contrast = convertScaleAbs img contrast 0"

text \<open>
  \<^verbatim>\<open>adjust_brightness\<close> (lines 931-935). The comment in the source: brightness
  ranges over -100..100 and is converted to -255..255.
\<close>

definition adjust_brightness :: "image \<Rightarrow> int \<Rightarrow> image" where
  "adjust_brightness img brightness =
     (let brightness_factor = of_int brightness * (255 / 100)
      in convertScaleAbs img 1 brightness_factor)"

text \<open>
  \<^verbatim>\<open>adjust_sharpness\<close> (lines 937-952): the kernel is the 3x3 array with 9 in the
  centre and -1 around it, scaled by \<open>sharpness\<close>, its centre then overwritten with
  \<open>8*sharpness + 1\<close>. \<^verbatim>\<open>filter2D\<close> and \<^verbatim>\<open>addWeighted\<close> both work on every channel
  by itself.
\<close>

definition sharpen_kernel :: "rat \<Rightarrow> rat list list" where
  "sharpen_kernel sharpness =
     (let kernel' = [[-1, -1, -1], [-1, 9, -1], [-1, -1, -1]];
          kernel' = map (map (\<lambda>k. k * sharpness)) kernel'
      in kernel'[1 := (kernel' ! 1)[1 := 8 * sharpness + 1]])"

definition adjust_sharpness :: "image \<Rightarrow> rat \<Rightarrow> image" where
  "adjust_sharpness img sharpness =
     (let kernel' = sharpen_kernel sharpness
      in per_channel (\<lambda>p.
           let sharpened = filter2D p kernel'
           in addWeighted p (1 - sharpness) sharpened sharpness 0) img)"

text \<open>
  The spec's brightness rule for one sample, in its own words:
  \<open>clamp(sample + offsetUnits*2.55, 0, 255)\<close>.
\<close>

definition spec_brightness :: "uint8 \<Rightarrow> int \<Rightarrow> rat" where
  "spec_brightness s offsetUnits = max 0 (min 255 (sample s + of_int offsetUnits * (255 / 100)))"

section \<open>The OpenCV operations the model does not open\<close>

text \<open>
  The neighbourhood filters, colour conversions and resamplers of OpenCV are taken as
  parameters: a record of functions that give the destination sample at row \<open>y\<close>,
  column \<open>x\<close> (or the destination pixel of a source pixel). What the model fixes is
  what OpenCV documents for each: the destination's size and channel count.
\<close>

type_synonym pixel = "uint8 \<times> uint8 \<times> uint8"
type_synonym planes = "plane \<times> plane \<times> plane"
type_synonym matrix = "real list list"

record cv2 =
  GaussianBlur_sample :: "plane \<Rightarrow> nat \<times> nat \<Rightarrow> rat \<Rightarrow> nat \<Rightarrow> nat \<Rightarrow> uint8"
  bilateralFilter_sample :: "plane \<Rightarrow> nat \<Rightarrow> rat \<Rightarrow> rat \<Rightarrow> nat \<Rightarrow> nat \<Rightarrow> uint8"
  bilateralFilter_pixel :: "planes \<Rightarrow> nat \<Rightarrow> rat \<Rightarrow> rat \<Rightarrow> nat \<Rightarrow> nat \<Rightarrow> pixel"
  adaptive_mean :: "plane \<Rightarrow> nat \<Rightarrow> nat \<Rightarrow> nat \<Rightarrow> uint8"
  COLOR_BGR2GRAY :: "pixel \<Rightarrow> uint8"
  COLOR_BGR2LAB :: "pixel \<Rightarrow> pixel"
  COLOR_LAB2BGR :: "pixel \<Rightarrow> pixel"
  morphologyEx_CLOSE :: "uint8 list list \<Rightarrow> nat \<times> nat \<Rightarrow> uint8 list list"
  getPerspectiveTransform :: "(real \<times> real) list \<Rightarrow> (real \<times> real) list \<Rightarrow> matrix"
  warpAffine_sample :: "plane \<Rightarrow> matrix \<Rightarrow> nat \<Rightarrow> nat \<Rightarrow> uint8"
  warpPerspective_sample :: "plane \<Rightarrow> matrix \<Rightarrow> nat \<Rightarrow> nat \<Rightarrow> uint8"

text \<open>
  \<^verbatim>\<open>cv2.GaussianBlur(src, ksize, sigmaX)\<close> and \<^verbatim>\<open>cv2.bilateralFilter(src, d,
  sigmaColor, sigmaSpace)\<close>: the destination has the size and type of the source.
\<close>

definition GaussianBlur :: "cv2 \<Rightarrow> plane \<Rightarrow> nat \<times> nat \<Rightarrow> rat \<Rightarrow> plane" where
  "GaussianBlur cv src ksize sigmaX = tabulate2 src (GaussianBlur_sample cv src ksize sigmaX)"

definition bilateralFilter :: "cv2 \<Rightarrow> image \<Rightarrow> nat \<Rightarrow> rat \<Rightarrow> rat \<Rightarrow> image" where
  "bilateralFilter cv src d sigmaColor sigmaSpace =
     (case src of
        Gray p \<Rightarrow> Gray (tabulate2 p (bilateralFilter_sample cv p d sigmaColor sigmaSpace))
      | BGR c1 c2 c3 \<Rightarrow>
          (let f = bilateralFilter_pixel cv (c1, c2, c3) d sigmaColor sigmaSpace
           in BGR (tabulate2 c1 (\<lambda>y x. fst (f y x)))
                  (tabulate2 c1 (\<lambda>y x. fst (snd (f y x))))
                  (tabulate2 c1 (\<lambda>y x. snd (snd (f y x))))))"

text \<open>\<^verbatim>\<open>cv2.cvtColor\<close> converts pixel by pixel.\<close>

definition cvtColor3 :: "(pixel \<Rightarrow> pixel) \<Rightarrow> planes \<Rightarrow> planes" where
  "cvtColor3 f src =
     (case src of (c1, c2, c3) \<Rightarrow>
        (tabulate2 c1 (\<lambda>y x. fst (f (c1 ! y ! x, c2 ! y ! x, c3 ! y ! x))),
         tabulate2 c1 (\<lambda>y x. fst (snd (f (c1 ! y ! x, c2 ! y ! x, c3 ! y ! x)))),
         tabulate2 c1 (\<lambda>y x. snd (snd (f (c1 ! y ! x, c2 ! y ! x, c3 ! y ! x))))))"

definition cvtColor_BGR2GRAY :: "cv2 \<Rightarrow> planes \<Rightarrow> plane" where
  "cvtColor_BGR2GRAY cv src =
     (case src of (c1, c2, c3) \<Rightarrow>
        tabulate2 c1 (\<lambda>y x. COLOR_BGR2GRAY cv (c1 ! y ! x, c2 ! y ! x, c3 ! y ! x)))"

text \<open>
  \<^verbatim>\<open>cv2.adaptiveThreshold(src, maxValue, ADAPTIVE_THRESH_GAUSSIAN_C,
  THRESH_BINARY_INV, blockSize, C)\<close>: the threshold of a pixel is the Gaussian-weighted
  mean of its \<open>blockSize\<close> neighbourhood minus \<open>C\<close>; with the inverted polarity a
  sample above its threshold becomes 0 and every other sample \<open>maxValue\<close>.
\<close>

definition adaptiveThreshold :: "cv2 \<Rightarrow> plane \<Rightarrow> uint8 \<Rightarrow> nat \<Rightarrow> int \<Rightarrow> plane" where
  "adaptiveThreshold cv src maxValue blockSize C =
     tabulate2 src (\<lambda>y x.
       if uint (src ! y ! x) > uint (adaptive_mean cv src blockSize y x) - C then 0 else maxValue)"

text \<open>\<^verbatim>\<open>cv2.getStructuringElement(cv2.MORPH_RECT, (w, h))\<close>: all ones.\<close>

definition getStructuringElement_RECT :: "nat \<times> nat \<Rightarrow> uint8 list list" where
  "getStructuringElement_RECT ksize = (case ksize of (w, h) \<Rightarrow> replicate h (replicate w 1))"

text \<open>
  \<^verbatim>\<open>cv2.dilate(src, kernel)\<close>: the maximum of the samples under the non-zero
  elements of the structuring element, anchored at its centre; samples outside the plane
  do not count. An empty element stands for the 3x3 rectangle.
\<close>

definition dilate :: "plane \<Rightarrow> uint8 list list \<Rightarrow> plane" where
  "dilate src kernel' =
     (let k = (if kernel' = [] \<or> width kernel' = 0 then replicate 3 (replicate 3 1) else kernel');
          kh = length k; kw = width k;
          ay = int (kh div 2); ax = int (kw div 2)
      in tabulate2 src (\<lambda>y x.
           foldr max
             (concat (map (\<lambda>i. concat (map (\<lambda>j.
                 let yy = int y + int i - ay; xx = int x + int j - ax
                 in if k ! i ! j \<noteq> 0 \<and> 0 \<le> yy \<and> yy < int (height src)
                       \<and> 0 \<le> xx \<and> xx < int (length (src ! nat yy))
                    then [src ! nat yy ! nat xx] else [])
               [0..<kw])) [0..<kh]))
             0))"

text \<open>
  \<^verbatim>\<open>cv2.bitwise_not\<close>, \<^verbatim>\<open>cv2.bitwise_and\<close> and the saturating \<^verbatim>\<open>cv2.add\<close> on
  planes of one shape.
\<close>

definition bitwise_not :: "plane \<Rightarrow> plane" where
  "bitwise_not src = map (map (\<lambda>s. NOT s)) src"

definition bitwise_and :: "plane \<Rightarrow> plane \<Rightarrow> plane" where
  "bitwise_and src1 src2 = map2 (map2 (\<lambda>s1 s2. s1 AND s2)) src1 src2"

definition cv_add :: "plane \<Rightarrow> plane \<Rightarrow> plane" where
  "cv_add src1 src2 = map2 (map2 (\<lambda>s1 s2. saturate_cast (uint s1 + uint s2))) src1 src2"

section \<open>Document cleanup and denoise\<close>

text \<open>
  The mask of a grayscale plane: lines 701-704 of \<^verbatim>\<open>load_image_from_path\<close>, and
  again lines 792-795 of \<^verbatim>\<open>update_processed_image\<close>. The structuring element is
  the 1x1 rectangle after \<^verbatim>\<open>cv2.morphologyEx(se, cv2.MORPH_CLOSE, (2,2))\<close>.
\<close>

definition threshold_mask :: "cv2 \<Rightarrow> plane \<Rightarrow> plane" where
  "threshold_mask cv gray =
     (let binary = adaptiveThreshold cv gray 255 25 15;
          se = getStructuringElement_RECT (1, 1);
          se = morphologyEx_CLOSE cv se (2, 2);
          mask = dilate binary se
      in mask)"

text \<open>
  The cleanup of a decoded image: lines 698-707 of \<^verbatim>\<open>load_image_from_path\<close>.
\<close>

definition cleanup :: "cv2 \<Rightarrow> planes \<Rightarrow> plane" where
  "cleanup cv src =
     (let original_image = cvtColor_BGR2GRAY cv src;
          mask = threshold_mask cv original_image;
          mask1 = bitwise_not mask;
          binary = bitwise_and original_image mask
      in cv_add binary mask1)"

text \<open>
  \<^verbatim>\<open>multi_scale_filter\<close>, the function nested in \<^verbatim>\<open>remove_moire\<close> (lines 963-973
  and again 989-999).
\<close>

definition multi_scale_filter :: "cv2 \<Rightarrow> plane \<Rightarrow> plane" where
  "multi_scale_filter cv img =
     (let g1 = GaussianBlur cv img (3, 3) (5 / 10);
          g2 = GaussianBlur cv img (5, 5) 1;
          g3 = GaussianBlur cv img (7, 7) (15 / 10);
          blended = addWeighted g1 (4 / 10) g2 (4 / 10) 0;
          blended = addWeighted blended (6 / 10) g3 (4 / 10) 0
      in blended)"

text \<open>
  \<^verbatim>\<open>remove_moire\<close> (lines 954-1011). \<open>denoise_image\<close> is its body past the
  \<^verbatim>\<open>None\<close> guard: the grayscale branch (lines 960-981) and the colour branch
  (lines 982-1011).
\<close>

definition denoise_image :: "cv2 \<Rightarrow> image \<Rightarrow> image" where
  "denoise_image cv img =
     (case img of
        Gray p \<Rightarrow>
          (let filtered = multi_scale_filter cv p;
               bilateral = bilateralFilter cv (Gray filtered) 9 75 75
           in bilateral)
      | BGR c1 c2 c3 \<Rightarrow>
          (case cvtColor3 (COLOR_BGR2LAB cv) (c1, c2, c3) of (l, a, b) \<Rightarrow>
             let l_filtered = multi_scale_filter cv l;
                 lab_filtered = (l_filtered, a, b)
             in case cvtColor3 (COLOR_LAB2BGR cv) lab_filtered of (r1, r2, r3) \<Rightarrow>
                  let bilateral = bilateralFilter cv (BGR r1 r2 r3) 9 75 75
                  in bilateral))"

definition remove_moire :: "cv2 \<Rightarrow> image option \<Rightarrow> image option" where
  "remove_moire cv img =
     (case img of
        None \<Rightarrow> None
      | Some i \<Rightarrow> Some (denoise_image cv i))"

text \<open>
  The spec's multi-scale smoothing, in its own words: the first pass takes the two
  smaller scales with weights 0.4 and 0.4 and adds a 0.2 residual of the input; the
  second pass blends 0.6 of that with 0.4 of the largest scale.
\<close>

definition spec_multi_scale_filter :: "cv2 \<Rightarrow> plane \<Rightarrow> plane" where
  "spec_multi_scale_filter cv img =
     (let g1 = GaussianBlur cv img (3, 3) (5 / 10);
          g2 = GaussianBlur cv img (5, 5) 1;
          g3 = GaussianBlur cv img (7, 7) (15 / 10);
          first = tabulate2 img (\<lambda>y x. saturate_cast (cvRound
                    (sample (g1 ! y ! x) * (4 / 10) + sample (g2 ! y ! x) * (4 / 10)
                     + sample (img ! y ! x) * (2 / 10))))
      in addWeighted first (6 / 10) g3 (4 / 10) 0)"

text \<open>
  A library for evaluating the model on concrete planes: every filter and resampler
  returns the sample at its own position, every colour conversion keeps the pixel
  (gray takes the first channel), closing keeps the structuring element, and the
  perspective transform is the identity matrix. On a plane of one constant value this is
  what OpenCV's blurs, means and bilateral filter return.
\<close>

definition cv_centre :: cv2 where
  "cv_centre =
     \<lparr>GaussianBlur_sample = (\<lambda>src ksize sigma y x. src ! y ! x),
      bilateralFilter_sample = (\<lambda>src d sc ss y x. src ! y ! x),
      bilateralFilter_pixel = (\<lambda>src d sc ss y x.
        (fst src ! y ! x, fst (snd src) ! y ! x, snd (snd src) ! y ! x)),
      adaptive_mean = (\<lambda>src blockSize y x. src ! y ! x),
      COLOR_BGR2GRAY = (\<lambda>px. fst px),
      COLOR_BGR2LAB = (\<lambda>px. px),
      COLOR_LAB2BGR = (\<lambda>px. px),
      morphologyEx_CLOSE = (\<lambda>se ksize. se),
      getPerspectiveTransform = (\<lambda>src dst. [[1, 0, 0], [0, 1, 0], [0, 0, 1]]),
      warpAffine_sample = (\<lambda>src M y x. src ! y ! x),
      warpPerspective_sample = (\<lambda>src M y x. src ! y ! x)\<rparr>"

section \<open>Geometry\<close>

text \<open>
  \<^verbatim>\<open>cv2.getRotationMatrix2D(center, angle, scale)\<close>, the angle in degrees: with
  \<open>\<alpha> = scale * cos angle\<close> and \<open>\<beta> = scale * sin angle\<close> the 2x3 matrix
  \<open>[[\<alpha>, \<beta>, (1-\<alpha>)*cx - \<beta>*cy], [-\<beta>, \<alpha>, \<beta>*cx + (1-\<alpha>)*cy]]\<close>.
\<close>

definition getRotationMatrix2D :: "real \<times> real \<Rightarrow> real \<Rightarrow> real \<Rightarrow> matrix" where
  "getRotationMatrix2D center angle scale =
     (case center of (cx, cy) \<Rightarrow>
        let a = angle * pi / 180;
            alpha = scale * cos a;
            beta = scale * sin a
        in [[alpha, beta, (1 - alpha) * cx - beta * cy],
            [- beta, alpha, beta * cx + (1 - alpha) * cy]])"

text \<open>
  \<^verbatim>\<open>cv2.warpAffine(src, M, (w, h), ...)\<close> and \<^verbatim>\<open>cv2.warpPerspective\<close>: the
  destination has \<open>h\<close> rows and \<open>w\<close> columns and the channels of the source; each
  channel is resampled by itself.
\<close>

definition warpAffine :: "cv2 \<Rightarrow> image \<Rightarrow> matrix \<Rightarrow> int \<times> int \<Rightarrow> image" where
  "warpAffine cv src M dsize =
     (case dsize of (w, h) \<Rightarrow>
        per_channel (\<lambda>p. map (\<lambda>y. map (\<lambda>x. warpAffine_sample cv p M y x) [0..<nat w]) [0..<nat h]) src)"

definition warpPerspective :: "cv2 \<Rightarrow> image \<Rightarrow> matrix \<Rightarrow> int \<times> int \<Rightarrow> image" where
  "warpPerspective cv src M dsize =
     (case dsize of (w, h) \<Rightarrow>
        per_channel (\<lambda>p. map (\<lambda>y. map (\<lambda>x. warpPerspective_sample cv p M y x) [0..<nat w]) [0..<nat h]) src)"

text \<open>\<^verbatim>\<open>rotate_image\<close> (lines 846-875); the angle is the slider's integer.\<close>

definition rotate_image :: "cv2 \<Rightarrow> image \<Rightarrow> int \<Rightarrow> image" where
  "rotate_image cv img angle =
     (if angle = 0 then img
      else case shape2 img of (h, w) \<Rightarrow>
        let center = (int w div 2, int h div 2);
            rotation_matrix =
              getRotationMatrix2D (of_int (fst center), of_int (snd center)) (of_int angle) 1;
            cos_val = \<bar>rotation_matrix ! 0 ! 0\<bar>;
            sin_val = \<bar>rotation_matrix ! 0 ! 1\<bar>;
            new_width = py_int (of_nat h * sin_val + of_nat w * cos_val);
            new_height = py_int (of_nat h * cos_val + of_nat w * sin_val);
            rotation_matrix = rotation_matrix
              [0 := (rotation_matrix ! 0)
                 [2 := rotation_matrix ! 0 ! 2 + (of_int new_width / 2 - of_int (fst center))]];
            rotation_matrix = rotation_matrix
              [1 := (rotation_matrix ! 1)
                 [2 := rotation_matrix ! 1 ! 2 + (of_int new_height / 2 - of_int (snd center))]]
        in warpAffine cv img rotation_matrix (new_width, new_height))"

text \<open>\<^verbatim>\<open>np.dot\<close> of two matrices.\<close>

definition np_dot :: "matrix \<Rightarrow> matrix \<Rightarrow> matrix" where
  "np_dot A B =
     map (\<lambda>row. map (\<lambda>j. sum_list (map2 (\<lambda>a brow. a * brow ! j) row B)) [0..<width B]) A"

text \<open>\<^verbatim>\<open>apply_perspective_transform\<close> (lines 877-925).\<close>

definition apply_perspective_transform ::
  "cv2 \<Rightarrow> image \<Rightarrow> real \<Rightarrow> real \<Rightarrow> real \<Rightarrow> real \<Rightarrow> real \<Rightarrow> real \<Rightarrow> real \<Rightarrow> real \<Rightarrow> image" where
  "apply_perspective_transform cv img top_left_x top_left_y top_right_x top_right_y
       bottom_left_x bottom_left_y bottom_right_x bottom_right_y =
     (case shape2 img of (h, w) \<Rightarrow>
        let src_points = [(0, 0), (of_nat w - 1, 0), (0, of_nat h - 1), (of_nat w - 1, of_nat h - 1)];
            offset_x_factor = of_nat w * (5 / 10);
            offset_y_factor = of_nat h * (5 / 10);
            dst_points =
              [(0 + top_left_x * offset_x_factor, 0 + top_left_y * offset_y_factor),
               (of_nat w - 1 + top_right_x * offset_x_factor, 0 + top_right_y * offset_y_factor),
               (0 + bottom_left_x * offset_x_factor, of_nat h - 1 + bottom_left_y * offset_y_factor),
               (of_nat w - 1 + bottom_right_x * offset_x_factor,
                of_nat h - 1 + bottom_right_y * offset_y_factor)];
            perspective_matrix = getPerspectiveTransform cv src_points dst_points;
            min_x = fold min (map fst (tl dst_points)) (fst (hd dst_points));
            max_x = fold max (map fst (tl dst_points)) (fst (hd dst_points));
            min_y = fold min (map snd (tl dst_points)) (snd (hd dst_points));
            max_y = fold max (map snd (tl dst_points)) (snd (hd dst_points));
            new_width = py_int (max_x - min_x);
            new_height = py_int (max_y - min_y);
            translation_matrix = [[1, 0, - min_x], [0, 1, - min_y], [0, 0, 1]];
            perspective_matrix = np_dot translation_matrix perspective_matrix
        in warpPerspective cv img perspective_matrix (new_width, new_height))"

text \<open>\<^verbatim>\<open>apply_blur\<close> (lines 1013-1016); sigma 0 lets OpenCV derive it from the size.\<close>

definition apply_blur :: "cv2 \<Rightarrow> image \<Rightarrow> int \<Rightarrow> image" where
  "apply_blur cv img blur_strength =
     (let kernel_size = blur_strength * 2 + 1
      in per_channel (\<lambda>p. GaussianBlur cv p (nat kernel_size, nat kernel_size) 0) img)"

section \<open>The processor and its widgets\<close>

text \<open>
  The fields of \<^verbatim>\<open>ImageProcessor\<close> that hold images: \<^verbatim>\<open>original_image\<close> is the
  decoded image during a load and the cleaned grayscale baseline after it,
  \<^verbatim>\<open>original_image_old\<close> the copy of the decoded colour image taken before the
  cleanup, \<^verbatim>\<open>processed_image\<close> the output. An attribute that is \<^verbatim>\<open>None\<close> or not
  yet set is \<open>None\<close>. Drawing on the labels and the state of the save button are the
  presentation's and are not modelled.
\<close>

record processor =
  original_image :: "image option"
  processed_image :: "image option"
  original_image_path :: "string option"
  original_image_old :: "image option"

text \<open>The sliders and switches, with the values \<^verbatim>\<open>.value()\<close> and \<^verbatim>\<open>.isChecked()\<close> read.\<close>

record widgets =
  contrast_slider :: int
  brightness_slider :: int
  sharpness_slider :: int
  blur_slider :: int
  rotate_slider :: int
  top_left_x_slider :: int
  top_left_y_slider :: int
  top_right_x_slider :: int
  top_right_y_slider :: int
  bottom_left_x_slider :: int
  bottom_left_y_slider :: int
  bottom_right_x_slider :: int
  bottom_right_y_slider :: int
  crop_left_slider :: int
  crop_top_slider :: int
  crop_right_slider :: int
  crop_bottom_slider :: int
  moire_switch :: bool
  perspective_switch :: bool
  crop_switch :: bool

text \<open>
  The file system and the decoders: \<^verbatim>\<open>open(file_path, 'rb').read()\<close> (\<open>None\<close> when
  \<^verbatim>\<open>open\<close> raises), \<^verbatim>\<open>cv2.imdecode(..., cv2.IMREAD_COLOR)\<close> and \<^verbatim>\<open>cv2.imread\<close>
  (both return \<^verbatim>\<open>None\<close> when the bytes do not decode, and a three-channel image
  otherwise), and \<^verbatim>\<open>os.path.abspath\<close>.
\<close>

record files =
  read_file :: "string \<Rightarrow> uint8 list option"
  imdecode :: "uint8 list \<Rightarrow> planes option"
  imread :: "string \<Rightarrow> planes option"
  abspath :: "string \<Rightarrow> string"

datatype py_error = OSError | AttributeError

datatype load_outcome = NoPath | Loaded | NotLoaded | Raised py_error

section \<open>Loading\<close>

text \<open>
  \<^verbatim>\<open>load_image_from_path\<close> (lines 665-719). The path is stored first. The first
  decoder's result is assigned to \<^verbatim>\<open>self.original_image\<close>, and so is each retry's:
  when all three fail the field holds \<^verbatim>\<open>None\<close> and an error dialog is shown
  (\<open>NotLoaded\<close>). \<^verbatim>\<open>file_path.encode('utf-8').decode('utf-8')\<close> is the path itself.
  The \<^verbatim>\<open>try\<close> around the body is commented out in the source, so an \<^verbatim>\<open>OSError\<close>
  of \<^verbatim>\<open>open\<close> leaves the function with the path already stored.
\<close>

definition load_image_from_path :: "cv2 \<Rightarrow> files \<Rightarrow> processor \<Rightarrow> string \<Rightarrow> load_outcome \<times> processor" where
  "load_image_from_path cv fs self file_path =
     (if file_path = [] then (NoPath, self)
      else
        let self = self\<lparr>original_image_path := Some file_path\<rparr>
        in case read_file fs file_path of
             None \<Rightarrow> (Raised OSError, self)
           | Some img_array \<Rightarrow>
               let decoded = imdecode fs img_array;
                   decoded = (if decoded = None then imread fs (abspath fs file_path) else decoded);
                   decoded = (if decoded = None then imread fs file_path else decoded)
               in case decoded of
                    None \<Rightarrow> (NotLoaded, self\<lparr>original_image := None\<rparr>)
                  | Some (c1, c2, c3) \<Rightarrow>
                      let cleaned = Gray (cleanup cv (c1, c2, c3))
                      in (Loaded, self\<lparr>original_image_old := Some (BGR c1 c2 c3),
                                        original_image := Some cleaned,
                                        processed_image := Some cleaned\<rparr>))"

section \<open>The pipeline\<close>

text \<open>
  The start of the pipeline when the moire switch is on: lines 785-807 of
  \<^verbatim>\<open>update_processed_image\<close>. \<^verbatim>\<open>remove_moire\<close> returns \<^verbatim>\<open>None\<close> for \<^verbatim>\<open>None\<close>,
  and reading \<^verbatim>\<open>.shape\<close> of it raises \<^verbatim>\<open>AttributeError\<close>. The mask is a single
  plane; \<^verbatim>\<open>cv2.cvtColor(mask, cv2.COLOR_GRAY2BGR)\<close> repeats it in three channels.
\<close>

definition moire_start :: "cv2 \<Rightarrow> image option \<Rightarrow> py_error + image" where
  "moire_start cv old =
     (case remove_moire cv old of
        None \<Rightarrow> Inl AttributeError
      | Some processed \<Rightarrow>
          let gray_image = (case processed of
                              BGR c1 c2 c3 \<Rightarrow> cvtColor_BGR2GRAY cv (c1, c2, c3)
                            | Gray p \<Rightarrow> p);
              mask = threshold_mask cv gray_image;
              mask1 = bitwise_not mask
          in case old of
               None \<Rightarrow> Inl AttributeError
             | Some (BGR c1 c2 c3) \<Rightarrow>
                 Inr (BGR (cv_add (bitwise_and c1 mask) mask1)
                          (cv_add (bitwise_and c2 mask) mask1)
                          (cv_add (bitwise_and c3 mask) mask1))
             | Some (Gray p) \<Rightarrow> Inr (Gray (cv_add (bitwise_and p mask) mask1)))"

text \<open>
  \<^verbatim>\<open>update_processed_image\<close> (lines 733-844). The texts of the labels are the
  presentation's; the images are the model's.
\<close>

definition update_processed_image :: "cv2 \<Rightarrow> widgets \<Rightarrow> processor \<Rightarrow> py_error + processor" where
  "update_processed_image cv ui self =
     (case original_image self of
        None \<Rightarrow> Inr self
      | Some baseline \<Rightarrow>
          let contrast_value = (of_int (contrast_slider ui) / 100 :: rat);
              brightness_value = brightness_slider ui;
              sharpness_value = (of_int (sharpness_slider ui) / 100 :: rat);
              blur_value = blur_slider ui;
              rotate_value = rotate_slider ui;
              top_left_x = (of_int (top_left_x_slider ui) / 100 :: real);
              top_left_y = (of_int (top_left_y_slider ui) / 100 :: real);
              top_right_x = (of_int (top_right_x_slider ui) / 100 :: real);
              top_right_y = (of_int (top_right_y_slider ui) / 100 :: real);
              bottom_left_x = (of_int (bottom_left_x_slider ui) / 100 :: real);
              bottom_left_y = (of_int (bottom_left_y_slider ui) / 100 :: real);
              bottom_right_x = (of_int (bottom_right_x_slider ui) / 100 :: real);
              bottom_right_y = (of_int (bottom_right_y_slider ui) / 100 :: real);
              crop_left = (of_int (crop_left_slider ui) / 100 :: rat);
              crop_top = (of_int (crop_top_slider ui) / 100 :: rat);
              crop_right = (of_int (crop_right_slider ui) / 100 :: rat);
              crop_bottom = (of_int (crop_bottom_slider ui) / 100 :: rat)
          in case (if moire_switch ui then moire_start cv (original_image_old self)
                   else Inr baseline) of
               Inl e \<Rightarrow> Inl e
             | Inr start \<Rightarrow>
                 let processed = start;
                     processed =
                       (if perspective_switch ui \<and>
                           list_ex (\<lambda>v. v \<noteq> 0)
                             [top_left_x, top_left_y, top_right_x, top_right_y,
                              bottom_left_x, bottom_left_y, bottom_right_x, bottom_right_y]
                        then apply_perspective_transform cv processed
                               top_left_x top_left_y top_right_x top_right_y
                               bottom_left_x bottom_left_y bottom_right_x bottom_right_y
                        else processed);
                     processed =
                       (if rotate_value \<noteq> 0 then rotate_image cv processed rotate_value
                        else processed);
                     processed =
                       (if contrast_value \<noteq> 1 then adjust_contrast processed contrast_value
                        else processed);
                     processed =
                       (if brightness_value \<noteq> 0 then adjust_brightness processed brightness_value
                        else processed);
                     processed =
                       (if sharpness_value > 0 then adjust_sharpness processed sharpness_value
                        else processed);
                     processed =
                       (if blur_value > 0 then apply_blur cv processed blur_value
                        else processed);
                     processed =
                       (if crop_switch ui \<and>
                           (crop_left > 0 \<or> crop_top > 0 \<or> crop_right < 1 \<or> crop_bottom < 1)
                        then apply_crop processed crop_left crop_top crop_right crop_bottom
                        else processed)
                 in Inr (self\<lparr>processed_image := Some processed\<rparr>))"

section \<open>The spec's statements, in its own words\<close>

text \<open>
  The ranges the sliders are created with (\<^verbatim>\<open>setRange\<close>, lines 323-600).
\<close>

definition sliders_in_range :: "widgets \<Rightarrow> bool" where
  "sliders_in_range ui =
     (0 \<le> contrast_slider ui \<and> contrast_slider ui \<le> 200 \<and>
      - 100 \<le> brightness_slider ui \<and> brightness_slider ui \<le> 100 \<and>
      0 \<le> sharpness_slider ui \<and> sharpness_slider ui \<le> 100 \<and>
      0 \<le> blur_slider ui \<and> blur_slider ui \<le> 20 \<and>
      - 180 \<le> rotate_slider ui \<and> rotate_slider ui \<le> 180 \<and>
      list_all (\<lambda>v. - 100 \<le> v \<and> v \<le> 100)
        [top_left_x_slider ui, top_left_y_slider ui, top_right_x_slider ui,
         top_right_y_slider ui, bottom_left_x_slider ui, bottom_left_y_slider ui,
         bottom_right_x_slider ui, bottom_right_y_slider ui] \<and>
      list_all (\<lambda>v. 0 \<le> v \<and> v \<le> 100)
        [crop_left_slider ui, crop_top_slider ui, crop_right_slider ui, crop_bottom_slider ui])"

text \<open>
  The spec's \<open>denoise\<close> of the pre-cleanup copy (section 4.1): smooth, then rebuild
  the adaptive mask from the denoised result and composite against the pre-cleanup
  source.
\<close>

definition spec_denoise :: "cv2 \<Rightarrow> image \<Rightarrow> image" where
  "spec_denoise cv pre =
     (let denoised = denoise_image cv pre;
          mask = threshold_mask cv
                   (case denoised of
                      Gray p \<Rightarrow> p
                    | BGR c1 c2 c3 \<Rightarrow> cvtColor_BGR2GRAY cv (c1, c2, c3))
      in per_channel (\<lambda>c. cv_add (bitwise_and c mask) (bitwise_not mask)) pre)"

text \<open>
  The spec's \<open>recompute\<close> (section 4.4): a start image, then seven gated stages in
  a fixed order, each applied to the output of the one before.
\<close>

definition spec_stages :: "cv2 \<Rightarrow> widgets \<Rightarrow> (bool \<times> (image \<Rightarrow> image)) list" where
  "spec_stages cv ui =
     (let offsets = map (\<lambda>v. (of_int v / 100 :: real))
                      [top_left_x_slider ui, top_left_y_slider ui, top_right_x_slider ui,
                       top_right_y_slider ui, bottom_left_x_slider ui, bottom_left_y_slider ui,
                       bottom_right_x_slider ui, bottom_right_y_slider ui];
          factor = (of_int (contrast_slider ui) / 100 :: rat);
          weight = (of_int (sharpness_slider ui) / 100 :: rat);
          rect = (of_int (crop_left_slider ui) / 100 :: rat, of_int (crop_top_slider ui) / 100 :: rat,
                  of_int (crop_right_slider ui) / 100 :: rat, of_int (crop_bottom_slider ui) / 100 :: rat)
      in [(perspective_switch ui \<and> offsets \<noteq> replicate 8 0,
           \<lambda>img. apply_perspective_transform cv img (offsets ! 0) (offsets ! 1) (offsets ! 2)
                    (offsets ! 3) (offsets ! 4) (offsets ! 5) (offsets ! 6) (offsets ! 7)),
          (rotate_slider ui \<noteq> 0, \<lambda>img. rotate_image cv img (rotate_slider ui)),
          (factor \<noteq> 1, \<lambda>img. adjust_contrast img factor),
          (brightness_slider ui \<noteq> 0, \<lambda>img. adjust_brightness img (brightness_slider ui)),
          (weight > 0, \<lambda>img. adjust_sharpness img weight),
          (blur_slider ui > 0, \<lambda>img. apply_blur cv img (blur_slider ui)),
          (crop_switch ui \<and> rect \<noteq> (0, 0, 1, 1),
           \<lambda>img. case rect of (l, t, r, b) \<Rightarrow> apply_crop img l t r b)])"

definition spec_recompute :: "cv2 \<Rightarrow> widgets \<Rightarrow> image \<Rightarrow> image \<Rightarrow> image" where
  "spec_recompute cv ui pre baseline =
     foldl (\<lambda>img (gate, stage). if gate then stage img else img)
       (if moire_switch ui then spec_denoise cv pre else baseline)
       (spec_stages cv ui)"

text \<open>
  The spec's canvas of a rotation (section 8): width and height rounded to the nearest
  integer.
\<close>

definition spec_rotated_size :: "nat \<Rightarrow> nat \<Rightarrow> int \<Rightarrow> int \<times> int" where
  "spec_rotated_size w h angle =
     (let \<theta> = of_int angle * pi / 180
      in (round (of_nat h * \<bar>sin \<theta>\<bar> + of_nat w * \<bar>cos \<theta>\<bar>),
          round (of_nat h * \<bar>cos \<theta>\<bar> + of_nat w * \<bar>sin \<theta>\<bar>)))"

section \<open>Concrete inputs\<close>

text \<open>The widgets as \<^verbatim>\<open>reset_parameters\<close> sets them (lines 1094-1125).\<close>

definition default_widgets :: widgets where
  "default_widgets =
     \<lparr>contrast_slider = 100, brightness_slider = 0, sharpness_slider = 0, blur_slider = 0,
      rotate_slider = 0,
      top_left_x_slider = 0, top_left_y_slider = 0, top_right_x_slider = 0,
      top_right_y_slider = 0, bottom_left_x_slider = 0, bottom_left_y_slider = 0,
      bottom_right_x_slider = 0, bottom_right_y_slider = 0,
      crop_left_slider = 0, crop_top_slider = 0, crop_right_slider = 100,
      crop_bottom_slider = 100,
      moire_switch = False, perspective_switch = False, crop_switch = False\<rparr>"

text \<open>The processor as \<^verbatim>\<open>__init__\<close> leaves it (lines 124-126).\<close>

definition empty_processor :: processor where
  "empty_processor =
     \<lparr>original_image = None, processed_image = None, original_image_path = None,
      original_image_old = None\<rparr>"

text \<open>
  A file system with two files: \<^verbatim>\<open>scan.png\<close> decodes to a colour image of one row
  and two pixels, \<^verbatim>\<open>notes.txt\<close> can be read and decodes to nothing.
\<close>

definition two_files :: files where
  "two_files =
     \<lparr>read_file = (\<lambda>path. if path = ''scan.png'' then Some [137, 80, 78, 71]
                           else if path = ''notes.txt'' then Some [104, 105]
                           else None),
      imdecode = (\<lambda>bytes. if bytes = [137, 80, 78, 71]
                            then Some ([[10, 200]], [[20, 210]], [[30, 220]])
                            else None),
      imread = (\<lambda>path. if path = ''scan.png'' then Some ([[10, 200]], [[20, 210]], [[30, 220]])
                        else None),
      abspath = (\<lambda>path. path)\<rparr>"

text \<open>
  The same library with a neighbourhood mean of 128 everywhere, so that the adaptive
  threshold is 113 and a plane can have both foreground and background.
\<close>

definition cv_mean128 :: cv2 where
  "cv_mean128 = cv_centre\<lparr>adaptive_mean := (\<lambda>src blockSize y x. 128)\<rparr>"

text \<open>
  The processor after \<^verbatim>\<open>scan.png\<close> of \<open>two_files\<close> has been loaded with the
  library \<open>cv_centre\<close>, and widgets with brightness 10 and a crop of the right half.
\<close>

definition scan_loaded :: processor where
  "scan_loaded =
     \<lparr>original_image = Some (Gray [[255, 255]]),
      processed_image = Some (Gray [[255, 255]]),
      original_image_path = Some ''scan.png'',
      original_image_old = Some (BGR [[10, 200]] [[20, 210]] [[30, 220]])\<rparr>"

definition bright_crop_widgets :: widgets where
  "bright_crop_widgets =
     default_widgets\<lparr>brightness_slider := 10, crop_switch := True, crop_left_slider := 50\<rparr>"

section \<open>Properties of the crop stage\<close>

lemma py_int_ratio_bounds:
  fixes x :: rat
  assumes "0 \<le> x" "x \<le> 1"
  shows "0 \<le> py_int (of_nat n * x)" "py_int (of_nat n * x) \<le> int n"
proof -
  have nn: "0 \<le> (of_nat n :: rat) * x" using assms by simp
  have le: "(of_nat n :: rat) * x \<le> of_nat n"
    using assms by (simp add: mult_left_le)
  show "0 \<le> py_int (of_nat n * x)" using nn by (simp add: py_int_def)
  have "\<lfloor>(of_nat n :: rat) * x\<rfloor> \<le> \<lfloor>(of_nat n :: rat)\<rfloor>" using le by (rule floor_mono)
  then show "py_int (of_nat n * x) \<le> int n" using nn by (simp add: py_int_def)
qed

lemma crop_box_valid:
  assumes "0 < h" "0 < w"
    and "0 \<le> l" "l \<le> 1" "0 \<le> t" "t \<le> 1" "0 \<le> r" "r \<le> 1" "0 \<le> b" "b \<le> 1"
    and "crop_box h w l t r b = (L, T, R, B)"
  shows "0 \<le> L \<and> L < R \<and> R \<le> int w \<and> 0 \<le> T \<and> T < B \<and> B \<le> int h"
  using assms py_int_ratio_bounds [of l w] py_int_ratio_bounds [of r w]
    py_int_ratio_bounds [of t h] py_int_ratio_bounds [of b h]
  by (auto simp: crop_box_def Let_def split: if_splits)

lemma py_slice_eq:
  assumes "0 \<le> lo" "lo \<le> hi" "hi \<le> int (length xs)"
  shows "py_slice xs lo hi = take (nat (hi - lo)) (drop (nat lo) xs)"
  using assms by (auto simp: py_slice_def slice_bound_def Let_def nat_diff_distrib)

lemma length_py_slice:
  assumes "0 \<le> lo" "lo \<le> hi" "hi \<le> int (length xs)"
  shows "length (py_slice xs lo hi) = nat (hi - lo)"
  using assms by (simp add: py_slice_eq)

lemma set_py_slice: "set (py_slice xs lo hi) \<subseteq> set xs"
  by (auto simp: py_slice_def Let_def dest: in_set_takeD in_set_dropD)

lemma py_slice_full: "py_slice xs 0 (int (length xs)) = xs"
  by (simp add: py_slice_def slice_bound_def)

lemma rectangular_row: "rectangular p \<Longrightarrow> row \<in> set p \<Longrightarrow> length row = width p"
  by (simp add: rectangular_def list_all_iff)

lemma crop_plane_shape:
  assumes rect: "rectangular p"
    and "0 \<le> L" "L < R" "R \<le> int (width p)" "0 \<le> T" "T < B" "B \<le> int (height p)"
  shows "height (crop_plane (L, T, R, B) p) = nat (B - T) \<and>
         width (crop_plane (L, T, R, B) p) = nat (R - L)"
proof -
  let ?rows = "py_slice p T B"
  have len: "length ?rows = nat (B - T)"
    using assms by (simp add: length_py_slice height_def)
  then obtain row rest where rows: "?rows = row # rest"
    using assms by (cases ?rows) auto
  then have "row \<in> set p" using set_py_slice [of p T B] by auto
  then have "length row = width p" using rect by (rule rectangular_row [rotated])
  then have "length (py_slice row L R) = nat (R - L)"
    using assms by (simp add: length_py_slice)
  then show ?thesis using len rows by (simp add: crop_plane_def height_def width_def)
qed

lemma crop_plane_full_width:
  assumes "rectangular p"
  shows "crop_plane (0, T, int (width p), B) p = py_slice p T B"
proof -
  have "\<And>row. row \<in> set (py_slice p T B) \<Longrightarrow> py_slice row 0 (int (width p)) = row"
    using assms set_py_slice [of p T B] py_slice_full rectangular_row by (metis subsetD)
  then show ?thesis by (simp add: crop_plane_def map_idI)
qed

lemma crop_box_axes:
  "crop_box h w l t r b =
     (fst (spec_crop_axis w l r), fst (spec_crop_axis h t b),
      snd (spec_crop_axis w l r), snd (spec_crop_axis h t b))"
  by (simp add: crop_box_def spec_crop_axis_def Let_def)

lemma example_rows:
  assumes "2 \<le> h"
  shows "\<lfloor>(1 / 10 :: rat) * of_nat h\<rfloor> < \<lfloor>(9 / 10 :: rat) * of_nat h\<rfloor>"
proof -
  have "(1 / 10 :: rat) * of_nat h + 1 \<le> (9 / 10 :: rat) * of_nat h"
    using assms by simp
  then have "\<lfloor>(1 / 10 :: rat) * of_nat h + 1\<rfloor> \<le> \<lfloor>(9 / 10 :: rat) * of_nat h\<rfloor>"
    by (rule floor_mono)
  then show ?thesis by simp
qed

lemma example_box:
  assumes "2 \<le> h"
  shows "crop_box h w (9 / 10) (1 / 10) (2 / 10) (9 / 10) =
           (0, \<lfloor>(1 / 10 :: rat) * of_nat h\<rfloor>, int w, \<lfloor>(9 / 10 :: rat) * of_nat h\<rfloor>)"
proof -
  have "(of_nat w :: rat) * (2 / 10) \<le> of_nat w * (9 / 10)" by simp
  then have "\<lfloor>(of_nat w :: rat) * (2 / 10)\<rfloor> \<le> \<lfloor>(of_nat w :: rat) * (9 / 10)\<rfloor>"
    by (rule floor_mono)
  then show ?thesis
    using example_rows [OF assms]
    by (simp add: crop_box_def py_int_def Let_def mult.commute)
qed

lemma small_box:
  assumes "h < 2"
  shows "crop_box h w (9 / 10) (1 / 10) (2 / 10) (9 / 10) = (0, 0, int w, int h)"
proof -
  have "(of_nat w :: rat) * (2 / 10) \<le> of_nat w * (9 / 10)" by simp
  then have "\<lfloor>(of_nat w :: rat) * (2 / 10)\<rfloor> \<le> \<lfloor>(of_nat w :: rat) * (9 / 10)\<rfloor>"
    by (rule floor_mono)
  moreover have "h = 0 \<or> h = 1" using assms by auto
  moreover have "\<lfloor>9 / 10 :: rat\<rfloor> = 0" "\<lfloor>1 / 10 :: rat\<rfloor> = 0"
    by (simp_all add: floor_eq_iff)
  ultimately show ?thesis
    by (auto simp: crop_box_def py_int_def Let_def)
qed

lemma rectangular_crop_plane:
  assumes rect: "rectangular p"
    and "0 \<le> L" "L \<le> R" "R \<le> int (width p)"
  shows "rectangular (crop_plane (L, T, R, B) p)"
proof -
  have "\<And>row. row \<in> set (py_slice p T B) \<Longrightarrow> length (py_slice row L R) = nat (R - L)"
    using assms set_py_slice [of p T B] rectangular_row [OF rect]
    by (metis length_py_slice subsetD)
  then show ?thesis
    by (cases "py_slice p T B") (simp_all add: rectangular_def crop_plane_def width_def list_all_iff)
qed

text \<open>
  Claim C10. For every non-empty image (height and width positive, planes rectangular)
  and crop fractions in \<open>[0, 1]\<close>, the rectangle that reaches the slice has
  \<open>left < right\<close> and \<open>top < bottom\<close>, and the cropped image has that many rows
  and columns: at least one of each.
\<close>

theorem apply_crop_non_empty:
  assumes wf: "well_formed img" and shape: "shape2 img = (h, w)"
    and pos: "0 < h" "0 < w"
    and ratios: "0 \<le> l" "l \<le> 1" "0 \<le> t" "t \<le> 1" "0 \<le> r" "r \<le> 1" "0 \<le> b" "b \<le> 1"
  shows "(case crop_box h w l t r b of (left, top', right, bottom) \<Rightarrow>
            left < right \<and> top' < bottom \<and>
            shape2 (apply_crop img l t r b) = (nat (bottom - top'), nat (right - left))) \<and>
         1 \<le> fst (shape2 (apply_crop img l t r b)) \<and>
         1 \<le> snd (shape2 (apply_crop img l t r b)) \<and>
         well_formed (apply_crop img l t r b)"
proof -
  obtain L T R B where box: "crop_box h w l t r b = (L, T, R, B)"
    by (cases "crop_box h w l t r b") auto
  have valid: "0 \<le> L" "L < R" "R \<le> int w" "0 \<le> T" "T < B" "B \<le> int h"
    using crop_box_valid [OF pos ratios box] by simp_all
  have plane: "height (crop_plane (L, T, R, B) p) = nat (B - T) \<and>
      width (crop_plane (L, T, R, B) p) = nat (R - L) \<and> rectangular (crop_plane (L, T, R, B) p)"
    if "rectangular p" "height p = h" "width p = w" for p :: plane
    using that valid crop_plane_shape [of p L R T B] rectangular_crop_plane [of p L R T B]
    by simp
  have "shape2 (apply_crop img l t r b) = (nat (B - T), nat (R - L)) \<and>
        well_formed (apply_crop img l t r b)"
  proof (cases img)
    case (Gray p)
    then show ?thesis using wf shape box plane [of p] by (simp add: apply_crop_def)
  next
    case (BGR c1 c2 c3)
    then show ?thesis
      using wf shape box plane [of c1] plane [of c2] plane [of c3] by (simp add: apply_crop_def)
  qed
  moreover have "1 \<le> nat (B - T)" "1 \<le> nat (R - L)" using valid by linarith+
  ultimately show ?thesis using box valid by simp
qed

theorem apply_crop_non_empty_witness:
  "shape2 (apply_crop (Gray [[1, 2, 3], [4, 5, 6], [7, 8, 9]]) (1 / 10) (1 / 10) (5 / 10) (9 / 10)) = (2, 1)"
proof -
  have wf: "well_formed (Gray [[1, 2, 3], [4, 5, 6], [7, 8, 9]])" by code_simp
  have shape: "shape2 (Gray [[1, 2, 3], [4, 5, 6], [7, 8, 9]]) = (3, 3)" by code_simp
  have box: "crop_box 3 3 (1 / 10) (1 / 10) (5 / 10) (9 / 10) = (0, 0, 1, 2)" by code_simp
  show ?thesis
    using apply_crop_non_empty [OF wf shape, of "1 / 10" "1 / 10" "5 / 10" "9 / 10"] box
    by simp
qed

text \<open>
  Claim C5, as amended. The two axes of the crop rectangle are validated on their own:
  each is the spec's axis rule applied to that axis' fractions only. For every image of
  height at least 2, \<^verbatim>\<open>crop(left=0.9, top=0.1, right=0.2, bottom=0.9)\<close> keeps the full
  width and the rows from \<open>floor(0.1*height)\<close> to \<open>floor(0.9*height)\<close>; for an image
  of height below 2 both pixel rows truncate to 0, the vertical range resets as well, and
  the whole image is returned.
\<close>

theorem apply_crop_axes_independent:
  "crop_box h w l t r b =
     (fst (spec_crop_axis w l r), fst (spec_crop_axis h t b),
      snd (spec_crop_axis w l r), snd (spec_crop_axis h t b)) \<and>
   (well_formed img \<and> 2 \<le> fst (shape2 img) \<longrightarrow>
      apply_crop img (9 / 10) (1 / 10) (2 / 10) (9 / 10) = spec_crop_example img) \<and>
   (well_formed img \<and> fst (shape2 img) < 2 \<longrightarrow>
      apply_crop img (9 / 10) (1 / 10) (2 / 10) (9 / 10) = img)"
proof (intro conjI impI)
  show "crop_box h w l t r b =
     (fst (spec_crop_axis w l r), fst (spec_crop_axis h t b),
      snd (spec_crop_axis w l r), snd (spec_crop_axis h t b))"
    by (rule crop_box_axes)
next
  assume a: "well_formed img \<and> 2 \<le> fst (shape2 img)"
  show "apply_crop img (9 / 10) (1 / 10) (2 / 10) (9 / 10) = spec_crop_example img"
  proof (cases img)
    case (Gray p)
    then show ?thesis
      using a example_box [of "height p" "width p"] crop_plane_full_width [of p]
      by (simp add: apply_crop_def spec_crop_example_def)
  next
    case (BGR c1 c2 c3)
    then show ?thesis
      using a example_box [of "height c1" "width c1"] crop_plane_full_width [of c1]
        crop_plane_full_width [of c2] crop_plane_full_width [of c3]
      by (simp add: apply_crop_def spec_crop_example_def)
  qed
next
  assume a: "well_formed img \<and> fst (shape2 img) < 2"
  have full: "crop_plane (0, 0, int (width p), int (height p)) p = p"
    if "rectangular p" for p :: plane
    using that by (simp add: crop_plane_full_width height_def py_slice_full)
  show "apply_crop img (9 / 10) (1 / 10) (2 / 10) (9 / 10) = img"
  proof (cases img)
    case (Gray p)
    then show ?thesis
      using a small_box [of "height p" "width p"] full [of p] by (simp add: apply_crop_def)
  next
    case (BGR c1 c2 c3)
    then show ?thesis
      using a small_box [of "height c1" "width c1"] full [of c1] full [of c2] full [of c3]
      by (simp add: apply_crop_def)
  qed
qed

theorem apply_crop_axes_independent_witness:
  "apply_crop (Gray [[1, 2, 3], [4, 5, 6], [7, 8, 9]]) (9 / 10) (1 / 10) (2 / 10) (9 / 10)
     = Gray [[1, 2, 3], [4, 5, 6]] \<and>
   apply_crop (Gray [[1, 2, 3]]) (9 / 10) (1 / 10) (2 / 10) (9 / 10) = Gray [[1, 2, 3]]"
proof -
  have wf: "well_formed (Gray [[1, 2, 3], [4, 5, 6], [7, 8, 9]]) \<and>
      2 \<le> fst (shape2 (Gray [[1, 2, 3], [4, 5, 6], [7, 8, 9]]))" by code_simp
  have wf1: "well_formed (Gray [[1, 2, 3]]) \<and> fst (shape2 (Gray [[1, 2, 3]])) < 2" by code_simp
  have ex: "spec_crop_example (Gray [[1, 2, 3], [4, 5, 6], [7, 8, 9]]) = Gray [[1, 2, 3], [4, 5, 6]]"
    by code_simp
  show ?thesis
    using apply_crop_axes_independent [of 3 3 0 0 1 1 "Gray [[1, 2, 3], [4, 5, 6], [7, 8, 9]]"]
      apply_crop_axes_independent [of 3 3 0 0 1 1 "Gray [[1, 2, 3]]"] wf wf1 ex
    by simp
qed

text \<open>
  On an image of one row the example of claim C5 fails as the spec words it: the rows
  from \<open>floor(0.1)\<close> to \<open>floor(0.9)\<close> are no rows at all, and the code returns the row.
\<close>

theorem crop_example_counterexample:
  "apply_crop (Gray [[1, 2, 3]]) (9 / 10) (1 / 10) (2 / 10) (9 / 10) = Gray [[1, 2, 3]] \<and>
   spec_crop_example (Gray [[1, 2, 3]]) = Gray [] \<and>
   apply_crop (Gray [[1, 2, 3]]) (9 / 10) (1 / 10) (2 / 10) (9 / 10)
     \<noteq> spec_crop_example (Gray [[1, 2, 3]])"
  by code_simp


section \<open>Properties of the photometric stages\<close>

lemma cvRound_of_int: "cvRound (of_int n) = n"
  by (simp add: cvRound_def)

lemma saturate_cast_sample: "saturate_cast (cvRound (sample s)) = s"
proof -
  have "uint s < 256" "0 \<le> uint s" using uint_bounded [of s] by simp_all
  then have "max 0 (min 255 (int (unat s))) = int (unat s)" by simp
  moreover have "cvRound (sample s) = int (unat s)"
    using cvRound_of_int [of "int (unat s)"] by (simp add: sample_def)
  ultimately show ?thesis by (simp add: saturate_cast_def)
qed

lemma length_tabulate2: "length (tabulate2 src f) = length src"
  by (simp add: tabulate2_def)

lemma nth_tabulate2:
  "y < length src \<Longrightarrow> tabulate2 src f ! y = map (f y) [0..<length (src ! y)]"
  by (simp add: tabulate2_def)

lemma tabulate2_cong:
  assumes "\<And>y x. y < length src \<Longrightarrow> x < length (src ! y) \<Longrightarrow> f y x = g y x"
  shows "tabulate2 src f = tabulate2 src g"
  using assms by (simp add: tabulate2_def)

lemma tabulate2_nth: "tabulate2 src (\<lambda>y x. src ! y ! x) = src"
  by (simp add: tabulate2_def map_nth)

lemma borderInterpolate_inside: "n < len \<Longrightarrow> borderInterpolate (int n) len = n"
  by (simp add: borderInterpolate_def)

lemma rectangular_nth: "rectangular p \<Longrightarrow> y < length p \<Longrightarrow> length (p ! y) = width p"
  by (simp add: rectangular_def list_all_length)

lemma sharpen_kernel_0: "sharpen_kernel 0 = [[0, 0, 0], [0, 1, 0], [0, 0, 0]]"
  by (simp add: sharpen_kernel_def)

lemma sharpen_kernel_1: "sharpen_kernel 1 = [[-1, -1, -1], [-1, 9, -1], [-1, -1, -1]]"
  by (simp add: sharpen_kernel_def)

lemma upt_3: "[0..<3] = [0, 1, 2]"
  by (simp add: upt_rec numeral_3_eq_3)

lemma filter2D_identity:
  assumes "rectangular p"
  shows "filter2D p [[0, 0, 0], [0, 1, 0], [0, 0, 0]] = p"
proof -
  have "filter2D p [[0, 0, 0], [0, 1, 0], [0, 0, 0]] = tabulate2 p (\<lambda>y x. p ! y ! x)"
    unfolding filter2D_def Let_def
  proof (rule tabulate2_cong)
    fix y x assume y: "y < length p" and "x < length (p ! y)"
    then have x: "x < width p" using assms by (simp add: rectangular_nth)
    show "saturate_cast (cvRound (sum_list (concat (map (\<lambda>i. map (\<lambda>j.
            [[0, 0, 0], [0, 1, 0], [0, 0, 0]] ! i ! j *
            sample (p ! borderInterpolate (int y + int i - int (length [[0, 0, 0], [0, 1, 0], [0, 0, 0::rat]] div 2)) (height p)
                      ! borderInterpolate (int x + int j - int (width [[0, 0, 0], [0, 1, 0], [0, 0, 0::rat]] div 2)) (width p)))
            [0..<width [[0, 0, 0], [0, 1, 0], [0, 0, 0::rat]]])
            [0..<length [[0, 0, 0], [0, 1, 0], [0, 0, 0::rat]]])))) = p ! y ! x"
      using y x
      by (simp add: width_def height_def upt_3 borderInterpolate_inside saturate_cast_sample)
  qed
  then show ?thesis by (simp add: tabulate2_nth)
qed

lemma addWeighted_first:
  "addWeighted p 1 p 0 0 = p"
proof -
  have "map2 (\<lambda>s1 s2. saturate_cast (cvRound (sample s1 * 1 + sample s2 * 0 + 0))) row row = row"
    for row :: "uint8 list"
    by (simp add: zip_same_conv_map saturate_cast_sample comp_def)
  then show ?thesis
    by (simp add: addWeighted_def zip_same_conv_map comp_def)
qed

lemma map2_second:
  "length xs = length ys \<Longrightarrow> map2 (\<lambda>a b. g b) xs ys = map g ys"
  by (induction xs ys rule: list_induct2) simp_all

lemma map2_snd: "length xs = length ys \<Longrightarrow> map2 (\<lambda>a b. b) xs ys = ys"
  using map2_second [of xs ys "\<lambda>b. b"] by simp

lemma addWeighted_second:
  assumes "length q = length p" and "\<And>y. y < length p \<Longrightarrow> length (q ! y) = length (p ! y)"
  shows "addWeighted p 0 q 1 0 = q"
proof -
  have "addWeighted p 0 q 1 0 = map2 (\<lambda>r1 r2. r2) p q"
    unfolding addWeighted_def
  proof (rule list.map_cong0 [of "zip p q", folded id_def] , goal_cases)
    case (1 z)
    then obtain y where "y < length p" "z = (p ! y, q ! y)"
      using assms(1) by (auto simp: set_zip)
    then show ?case using assms(2) [of y]
      by (simp add: map2_second [of _ _ "\<lambda>b. saturate_cast (cvRound (sample b))"]
          saturate_cast_sample map2_snd)
  qed
  then show ?thesis using assms(1) by (simp add: map2_snd)
qed

text \<open>
  Claim C8. With weight 0 the sharpen stage returns its input sample for sample: the
  kernel is the identity and the blend takes the original with weight 1. With weight 1
  the kernel has 9 in the centre and -1 in its eight neighbours, and the result is the
  \<^verbatim>\<open>filter2D\<close> output itself: the original enters the blend with weight 0.
\<close>

theorem adjust_sharpness_endpoints:
  assumes "well_formed img"
  shows "adjust_sharpness img 0 = img \<and>
         sharpen_kernel 1 = [[-1, -1, -1], [-1, 9, -1], [-1, -1, -1]] \<and>
         adjust_sharpness img 1 =
           per_channel (\<lambda>p. filter2D p [[-1, -1, -1], [-1, 9, -1], [-1, -1, -1]]) img"
proof -
  have zero: "addWeighted p (1 - 0) (filter2D p (sharpen_kernel 0)) 0 0 = p"
    if "rectangular p" for p
    using that by (simp add: sharpen_kernel_0 filter2D_identity addWeighted_first)
  have one: "addWeighted p (1 - 1) (filter2D p (sharpen_kernel 1)) 1 0
      = filter2D p [[-1, -1, -1], [-1, 9, -1], [-1, -1, -1]]" for p
    by (simp add: sharpen_kernel_1 addWeighted_second filter2D_def Let_def
        length_tabulate2 nth_tabulate2)
  show ?thesis
  proof (cases img)
    case (Gray p)
    then show ?thesis using assms zero [of p] one [of p]
      by (simp add: adjust_sharpness_def Let_def sharpen_kernel_1)
  next
    case (BGR c1 c2 c3)
    then show ?thesis
      using assms zero [of c1] zero [of c2] zero [of c3] one [of c1] one [of c2] one [of c3]
      by (simp add: adjust_sharpness_def Let_def sharpen_kernel_1)
  qed
qed

theorem adjust_sharpness_endpoints_witness:
  "adjust_sharpness (Gray [[10, 20, 30], [40, 50, 60]]) 0 = Gray [[10, 20, 30], [40, 50, 60]] \<and>
   adjust_sharpness (Gray [[10, 20, 30], [40, 50, 60]]) 1 = Gray [[0, 0, 0], [160, 230, 255]]"
proof -
  have wf: "well_formed (Gray [[10, 20, 30], [40, 50, 60]])" by code_simp
  have conv: "filter2D [[10, 20, 30], [40, 50, 60]] [[-1, -1, -1], [-1, 9, -1], [-1, -1, -1]]
      = [[0, 0, 0], [160, 230, 255]]" by code_simp
  show ?thesis using adjust_sharpness_endpoints [OF wf] conv by simp
qed

text \<open>
  Claim C3 at the failing input. With brightness -100 the offset is -255, and
  \<^verbatim>\<open>convertScaleAbs\<close> stores the absolute value of \<open>sample - 255\<close>: the samples
  0, 10 and 200 come out as 255, 245 and 55, where the spec's clamp gives 0 for each.
\<close>

theorem adjust_brightness_negative_offset:
  "adjust_brightness (Gray [[0, 10, 200]]) (- 100) = Gray [[255, 245, 55]] \<and>
   map (\<lambda>s. spec_brightness s (- 100)) [0, 10, 200] = [0, 0, 0]"
  by code_simp


section \<open>Properties of the denoise smoothing\<close>

lemma nth_map2:
  "i < length xs \<Longrightarrow> i < length ys \<Longrightarrow> map2 f xs ys ! i = f (xs ! i) (ys ! i)"
  by simp

lemma nth_nth_tabulate2:
  "y < length src \<Longrightarrow> x < length (src ! y) \<Longrightarrow> tabulate2 src f ! y ! x = f y x"
  by (simp add: tabulate2_def)

lemma length_nth_tabulate2:
  "y < length src \<Longrightarrow> length (tabulate2 src f ! y) = length (src ! y)"
  by (simp add: tabulate2_def)

lemma length_addWeighted:
  "length (addWeighted p a q b c) = min (length p) (length q)"
  by (simp add: addWeighted_def)

lemma length_nth_addWeighted:
  "y < length p \<Longrightarrow> y < length q \<Longrightarrow>
   length (addWeighted p a q b c ! y) = min (length (p ! y)) (length (q ! y))"
  by (simp add: addWeighted_def)

lemma nth_nth_addWeighted:
  "y < length p \<Longrightarrow> y < length q \<Longrightarrow> x < length (p ! y) \<Longrightarrow> x < length (q ! y) \<Longrightarrow>
   addWeighted p a q b c ! y ! x
     = saturate_cast (cvRound (sample (p ! y ! x) * a + sample (q ! y ! x) * b + c))"
  by (simp add: addWeighted_def)

lemma length_GaussianBlur: "length (GaussianBlur cv src k s) = length src"
  by (simp add: GaussianBlur_def length_tabulate2)

lemma length_nth_GaussianBlur:
  "y < length src \<Longrightarrow> length (GaussianBlur cv src k s ! y) = length (src ! y)"
  by (simp add: GaussianBlur_def length_nth_tabulate2)

text \<open>
  Claim C6, as amended. The multi-scale smoothing blurs its input at three scales (3x3
  with sigma 0.5, 5x5 with sigma 1.0, 7x7 with sigma 1.5). Its first pass is 0.4 of the
  first scale plus 0.4 of the second and nothing else: no part of the input is added.
  The result is stored as a byte, and the second pass is 0.6 of that byte plus 0.4 of
  the third scale. No weight is renormalised.
\<close>

theorem multi_scale_filter_blend:
  assumes y: "y < length img" and x: "x < length (img ! y)"
  shows "length (multi_scale_filter cv img) = length img \<and>
         length (multi_scale_filter cv img ! y) = length (img ! y) \<and>
         multi_scale_filter cv img ! y ! x =
           (let g1 = GaussianBlur cv img (3, 3) (5 / 10);
                g2 = GaussianBlur cv img (5, 5) 1;
                g3 = GaussianBlur cv img (7, 7) (15 / 10);
                first = saturate_cast (cvRound
                          (sample (g1 ! y ! x) * (4 / 10) + sample (g2 ! y ! x) * (4 / 10)))
            in saturate_cast (cvRound (sample first * (6 / 10) + sample (g3 ! y ! x) * (4 / 10))))"
  using y x
  by (simp add: multi_scale_filter_def Let_def length_addWeighted length_nth_addWeighted
      nth_nth_addWeighted length_GaussianBlur length_nth_GaussianBlur)

theorem multi_scale_filter_blend_witness:
  "multi_scale_filter cv_centre [[100, 50]] ! 0 ! 1 = 44"
proof -
  have g: "GaussianBlur cv_centre [[100, 50]] k s = [[100, 50]]" for k s by code_simp
  have a: "saturate_cast (cvRound (sample (saturate_cast (cvRound (sample 50 * (4 / 10) + sample 50 * (4 / 10)))) * (6 / 10)
      + sample 50 * (4 / 10))) = 44" by code_simp
  show ?thesis
    using multi_scale_filter_blend [of 0 "[[100, 50]]" 1 cv_centre] a by (simp add: g)
qed

text \<open>
  On the one-pixel plane of value 100 every blur returns 100. The code gives
  \<open>0.6 * (0.4*100 + 0.4*100) + 0.4*100 = 88\<close>; with the 0.2 residual of the input that
  claim C6 names, the first pass would be 100 and the result 100.
\<close>

theorem multi_scale_residual_counterexample:
  "multi_scale_filter cv_centre [[100]] = [[88]] \<and>
   spec_multi_scale_filter cv_centre [[100]] = [[100]] \<and>
   multi_scale_filter cv_centre [[100]] \<noteq> spec_multi_scale_filter cv_centre [[100]]"
  by code_simp


section \<open>Properties of loading and cleanup\<close>

lemma foldr_max_mem: "foldr max L (0 :: uint8) \<in> insert 0 (set L)"
  by (induction L) (auto simp: max_def)

lemma length_dilate: "length (dilate src se) = length src"
  by (simp add: dilate_def Let_def length_tabulate2)

lemma length_nth_dilate: "y < length src \<Longrightarrow> length (dilate src se ! y) = length (src ! y)"
  by (simp add: dilate_def Let_def length_nth_tabulate2)

lemma dilate_binary:
  assumes bin: "\<And>yy xx. yy < length src \<Longrightarrow> xx < length (src ! yy) \<Longrightarrow>
                  src ! yy ! xx = 0 \<or> src ! yy ! xx = 255"
    and y: "y < length src" and x: "x < length (src ! y)"
  shows "dilate src se ! y ! x = 0 \<or> dilate src se ! y ! x = 255"
proof -
  define k where "k = (if se = [] \<or> width se = 0 then replicate 3 (replicate 3 (1 :: uint8)) else se)"
  define L where "L = concat (map (\<lambda>i. concat (map (\<lambda>j.
                 let yy = int y + int i - int (length k div 2); xx = int x + int j - int (width k div 2)
                 in if k ! i ! j \<noteq> 0 \<and> 0 \<le> yy \<and> yy < int (height src)
                       \<and> 0 \<le> xx \<and> xx < int (length (src ! nat yy))
                    then [src ! nat yy ! nat xx] else [])
               [0..<width k])) [0..<length k])"
  have val: "dilate src se ! y ! x = foldr max L 0"
    using y x by (simp add: dilate_def Let_def nth_nth_tabulate2 L_def k_def)
  have "v = 0 \<or> v = 255" if "v \<in> set L" for v
  proof -
    from that obtain i j where
      "v \<in> set (let yy = int y + int i - int (length k div 2); xx = int x + int j - int (width k div 2)
                 in if k ! i ! j \<noteq> 0 \<and> 0 \<le> yy \<and> yy < int (height src)
                       \<and> 0 \<le> xx \<and> xx < int (length (src ! nat yy))
                    then [src ! nat yy ! nat xx] else [])"
      by (auto simp: L_def)
    then have c: "0 \<le> int y + int i - int (length k div 2)"
        "int y + int i - int (length k div 2) < int (length src)"
        "0 \<le> int x + int j - int (width k div 2)"
        "int x + int j - int (width k div 2)
           < int (length (src ! nat (int y + int i - int (length k div 2))))"
        "v = src ! nat (int y + int i - int (length k div 2)) ! nat (int x + int j - int (width k div 2))"
      by (auto simp: Let_def height_def split: if_splits)
    have "nat (int y + int i - int (length k div 2)) < length src"
      using c(1,2) by linarith
    moreover have "nat (int x + int j - int (width k div 2))
        < length (src ! nat (int y + int i - int (length k div 2)))"
      using c(3,4) by linarith
    ultimately show ?thesis using bin c(5) by blast
  qed
  then show ?thesis using foldr_max_mem [of L] val by auto
qed

lemma dilate_unit: "dilate src [[1]] = src"
proof -
  have "dilate src [[1]] = tabulate2 src (\<lambda>y x. src ! y ! x)"
    unfolding dilate_def Let_def
    by (rule tabulate2_cong) (simp add: width_def height_def)
  then show ?thesis by (simp add: tabulate2_nth)
qed

lemma adaptiveThreshold_sample:
  "y < length src \<Longrightarrow> x < length (src ! y) \<Longrightarrow>
   adaptiveThreshold cv src m b C ! y ! x
     = (if uint (src ! y ! x) > uint (adaptive_mean cv src b y x) - C then 0 else m)"
  by (simp add: adaptiveThreshold_def nth_nth_tabulate2)

lemma length_adaptiveThreshold: "length (adaptiveThreshold cv src m b C) = length src"
  by (simp add: adaptiveThreshold_def length_tabulate2)

lemma length_nth_adaptiveThreshold:
  "y < length src \<Longrightarrow> length (adaptiveThreshold cv src m b C ! y) = length (src ! y)"
  by (simp add: adaptiveThreshold_def length_nth_tabulate2)

lemma length_threshold_mask: "length (threshold_mask cv gray) = length gray"
  by (simp add: threshold_mask_def Let_def length_dilate length_adaptiveThreshold)

lemma length_nth_threshold_mask:
  "y < length gray \<Longrightarrow> length (threshold_mask cv gray ! y) = length (gray ! y)"
  by (simp add: threshold_mask_def Let_def length_dilate length_nth_dilate
      length_adaptiveThreshold length_nth_adaptiveThreshold)

lemma threshold_mask_binary:
  assumes "y < length gray" "x < length (gray ! y)"
  shows "threshold_mask cv gray ! y ! x = 0 \<or> threshold_mask cv gray ! y ! x = 255"
  unfolding threshold_mask_def Let_def
  by (rule dilate_binary)
     (use assms in \<open>auto simp: adaptiveThreshold_sample length_adaptiveThreshold
        length_nth_adaptiveThreshold\<close>)

lemma composite_sample:
  assumes y: "y < length gray" "y < length msk"
    and x: "x < length (gray ! y)" "x < length (msk ! y)"
  shows "cv_add (bitwise_and gray msk) (bitwise_not msk) ! y ! x
           = saturate_cast (uint (gray ! y ! x AND msk ! y ! x) + uint (NOT (msk ! y ! x)))"
  using assms by (simp add: cv_add_def bitwise_and_def bitwise_not_def)

lemma composite_shape:
  "length (cv_add (bitwise_and gray msk) (bitwise_not msk)) = min (length gray) (length msk)"
  "y < length gray \<Longrightarrow> y < length msk \<Longrightarrow>
     length (cv_add (bitwise_and gray msk) (bitwise_not msk) ! y)
       = min (length (gray ! y)) (length (msk ! y))"
  by (simp_all add: cv_add_def bitwise_and_def bitwise_not_def)

lemma saturate_uint: "saturate_cast (uint (s :: uint8)) = s"
proof -
  have "uint s < 256" "0 \<le> uint s" using uint_bounded [of s] by simp_all
  then have "max 0 (min 255 (uint s)) = uint s" by simp
  then show ?thesis by (simp add: saturate_cast_def)
qed

lemma composite_foreground:
  "saturate_cast (uint (g AND (255 :: uint8)) + uint (NOT (255 :: uint8))) = g"
proof -
  have m: "(255 :: uint8) = - 1" by simp
  have "g AND (255 :: uint8) = g" unfolding m by simp
  moreover have "NOT (255 :: uint8) = 0" by simp
  ultimately show ?thesis by (simp add: saturate_uint)
qed

lemma composite_background:
  "saturate_cast (uint (g AND (0 :: uint8)) + uint (NOT (0 :: uint8))) = 255"
proof -
  have "uint (NOT (0 :: uint8)) = 255"
    by (simp add: unsigned_minus_1_eq_mask mask_eq_exp_minus_1)
  then show ?thesis by (simp add: saturate_cast_def)
qed

lemma cleanup_sample:
  assumes y: "y < length (cvtColor_BGR2GRAY cv src)"
    and x: "x < length (cvtColor_BGR2GRAY cv src ! y)"
  shows "length (cleanup cv src) = length (cvtColor_BGR2GRAY cv src) \<and>
         length (cleanup cv src ! y) = length (cvtColor_BGR2GRAY cv src ! y) \<and>
         cleanup cv src ! y ! x =
           saturate_cast
             (uint (cvtColor_BGR2GRAY cv src ! y ! x
                      AND threshold_mask cv (cvtColor_BGR2GRAY cv src) ! y ! x)
              + uint (NOT (threshold_mask cv (cvtColor_BGR2GRAY cv src) ! y ! x)))"
  using y x
  by (simp add: cleanup_def Let_def composite_shape composite_sample
      length_threshold_mask length_nth_threshold_mask)

lemma load_Loaded:
  assumes "load_image_from_path cv fs self file_path = (Loaded, self')"
  shows "\<exists>c1 c2 c3. self' = self\<lparr>original_image_path := Some file_path,
                                   original_image_old := Some (BGR c1 c2 c3),
                                   original_image := Some (Gray (cleanup cv (c1, c2, c3))),
                                   processed_image := Some (Gray (cleanup cv (c1, c2, c3)))\<rparr>"
  using assms
  by (auto simp: load_image_from_path_def Let_def split: if_splits option.splits)

text \<open>
  Claim C7. After a load that succeeds, the baseline image is a single plane with the
  shape of the grayscale conversion of the decoded image. With \<open>msk\<close> the mask the
  cleanup builds, every sample of the mask is 255 (foreground) or 0, and every sample of
  the baseline is the grayscale sample where the mask is 255 and 255 everywhere else,
  which is \<open>(gray AND mask) + (255 AND NOT mask)\<close> in saturating arithmetic. When the
  morphological closing leaves the 1x1 structuring element as it is, the mask is the
  adaptive threshold itself: foreground exactly where the grayscale sample is at most
  the Gaussian-weighted mean of its 25x25 neighbourhood minus 15.
\<close>

theorem cleanup_composite:
  assumes "load_image_from_path cv fs self file_path = (Loaded, self')"
  shows "\<exists>c1 c2 c3 res.
           original_image_old self' = Some (BGR c1 c2 c3) \<and>
           original_image self' = Some (Gray res) \<and>
           (let gray = cvtColor_BGR2GRAY cv (c1, c2, c3);
                msk = threshold_mask cv gray
            in length res = length gray \<and>
               (\<forall>y < length gray.
                  length (res ! y) = length (gray ! y) \<and>
                  (\<forall>x < length (gray ! y).
                     (msk ! y ! x = 255 \<or> msk ! y ! x = 0) \<and>
                     res ! y ! x = (if msk ! y ! x = 255 then gray ! y ! x else 255) \<and>
                     res ! y ! x = saturate_cast (uint (gray ! y ! x AND msk ! y ! x)
                                                  + uint (255 AND NOT (msk ! y ! x))))) \<and>
               (morphologyEx_CLOSE cv [[1]] (2, 2) = [[1]] \<longrightarrow>
                  (\<forall>y < length gray. \<forall>x < length (gray ! y).
                     msk ! y ! x = (if uint (gray ! y ! x) \<le> uint (adaptive_mean cv gray 25 y x) - 15
                                    then 255 else 0))))"
proof -
  from load_Loaded [OF assms] obtain c1 c2 c3 where
    s: "self' = self\<lparr>original_image_path := Some file_path,
                        original_image_old := Some (BGR c1 c2 c3),
                        original_image := Some (Gray (cleanup cv (c1, c2, c3))),
                        processed_image := Some (Gray (cleanup cv (c1, c2, c3)))\<rparr>"
    by blast
  let ?gray = "cvtColor_BGR2GRAY cv (c1, c2, c3)"
  let ?msk = "threshold_mask cv ?gray"
  let ?res = "cleanup cv (c1, c2, c3)"
  have all255: "(255 :: uint8) AND NOT m = NOT m" for m
  proof -
    have m1: "(255 :: uint8) = - 1" by simp
    show ?thesis unfolding m1 by simp
  qed
  have px: "length (?res ! y) = length (?gray ! y) \<and>
      (?msk ! y ! x = 255 \<or> ?msk ! y ! x = 0) \<and>
      ?res ! y ! x = (if ?msk ! y ! x = 255 then ?gray ! y ! x else 255) \<and>
      ?res ! y ! x = saturate_cast (uint (?gray ! y ! x AND ?msk ! y ! x)
                                   + uint (255 AND NOT (?msk ! y ! x)))"
    if "y < length ?gray" "x < length (?gray ! y)" for y x
  proof -
    have b: "?msk ! y ! x = 0 \<or> ?msk ! y ! x = 255"
      using that threshold_mask_binary [of y ?gray x cv] by simp
    have v: "?res ! y ! x = saturate_cast (uint (?gray ! y ! x AND ?msk ! y ! x)
                                         + uint (NOT (?msk ! y ! x)))"
      and l: "length (?res ! y) = length (?gray ! y)"
      using that cleanup_sample [of y cv "(c1, c2, c3)" x] by simp_all
    from b show ?thesis
    proof
      assume "?msk ! y ! x = 0"
      then show ?thesis using v l
        by (simp add: all255 saturate_cast_def unsigned_minus_1_eq_mask mask_eq_exp_minus_1)
    next
      assume "?msk ! y ! x = 255"
      then show ?thesis using v l composite_foreground [of "?gray ! y ! x"]
        by (simp add: all255)
    qed
  qed
  have rows: "length (?res ! y) = length (?gray ! y)" if "y < length ?gray" for y
    using that
    by (simp add: cleanup_def Let_def composite_shape
        length_threshold_mask length_nth_threshold_mask)
  have len: "length ?res = length ?gray"
    by (simp add: cleanup_def Let_def composite_shape length_threshold_mask)
  have unit: "?msk ! y ! x = (if uint (?gray ! y ! x) \<le> uint (adaptive_mean cv ?gray 25 y x) - 15
                             then 255 else 0)"
    if "morphologyEx_CLOSE cv [[1]] (2, 2) = [[1]]" "y < length ?gray" "x < length (?gray ! y)"
    for y x
    using that
    by (simp add: threshold_mask_def Let_def getStructuringElement_RECT_def
        dilate_unit adaptiveThreshold_sample)
  have old: "original_image_old self' = Some (BGR c1 c2 c3)"
    and new: "original_image self' = Some (Gray ?res)"
    by (simp_all add: s)
  show ?thesis
    unfolding Let_def
    apply (rule exI [of _ c1], rule exI [of _ c2], rule exI [of _ c3], rule exI [of _ ?res])
    using old new len px rows unit by blast
qed

theorem cleanup_composite_witness:
  "original_image (snd (load_image_from_path cv_mean128 two_files empty_processor ''scan.png''))
     = Some (Gray [[10, 255]])"
proof -
  have ld: "load_image_from_path cv_mean128 two_files empty_processor ''scan.png''
      = (Loaded, \<lparr>original_image = Some (Gray [[10, 255]]),
                   processed_image = Some (Gray [[10, 255]]),
                   original_image_path = Some ''scan.png'',
                   original_image_old = Some (BGR [[10, 200]] [[20, 210]] [[30, 220]])\<rparr>)"
    by code_simp
  show ?thesis using cleanup_composite [OF ld] by (simp add: ld)
qed

text \<open>
  Claim C2, as amended. When the file can be read and none of the three decoding
  attempts gives an image, the load reports the failure; the pre-cleanup copy and the
  output image are as before, the stored path is the new path, and the field that held
  the baseline image holds \<^verbatim>\<open>None\<close>.
\<close>

theorem load_decode_failure:
  assumes "file_path \<noteq> []"
    and "read_file fs file_path = Some img_array"
    and "imdecode fs img_array = None"
    and "imread fs (abspath fs file_path) = None"
    and "imread fs file_path = None"
  shows "load_image_from_path cv fs self file_path
           = (NotLoaded, self\<lparr>original_image_path := Some file_path, original_image := None\<rparr>) \<and>
         original_image_old (snd (load_image_from_path cv fs self file_path))
           = original_image_old self \<and>
         processed_image (snd (load_image_from_path cv fs self file_path))
           = processed_image self"
  using assms by (simp add: load_image_from_path_def Let_def)

theorem load_decode_failure_witness:
  "load_image_from_path cv_centre two_files
     (snd (load_image_from_path cv_centre two_files empty_processor ''scan.png'')) ''notes.txt''
   = (NotLoaded,
      \<lparr>original_image = None, processed_image = Some (Gray [[255, 255]]),
       original_image_path = Some ''notes.txt'',
       original_image_old = Some (BGR [[10, 200]] [[20, 210]] [[30, 220]])\<rparr>)"
proof -
  have ld: "snd (load_image_from_path cv_centre two_files empty_processor ''scan.png'')
      = \<lparr>original_image = Some (Gray [[255, 255]]),
         processed_image = Some (Gray [[255, 255]]),
         original_image_path = Some ''scan.png'',
         original_image_old = Some (BGR [[10, 200]] [[20, 210]] [[30, 220]])\<rparr>"
    by code_simp
  have f: "''notes.txt'' \<noteq> []" "read_file two_files ''notes.txt'' = Some [104, 105]"
    "imdecode two_files [104, 105] = None"
    "imread two_files (abspath two_files ''notes.txt'') = None"
    "imread two_files ''notes.txt'' = None"
    by (simp_all add: two_files_def)
  show ?thesis
    using load_decode_failure [OF f, of cv_centre
        "snd (load_image_from_path cv_centre two_files empty_processor ''scan.png'')"]
    by (simp add: ld)
qed

text \<open>
  Claim C2 as the spec words it fails: after a successful load of \<^verbatim>\<open>scan.png\<close>, a
  failed load of \<^verbatim>\<open>notes.txt\<close> clears the baseline image and replaces the stored
  path, so the state is not the state before.
\<close>

theorem load_failure_changes_state_counterexample:
  "original_image (snd (load_image_from_path cv_centre two_files empty_processor ''scan.png''))
     = Some (Gray [[255, 255]]) \<and>
   original_image (snd (load_image_from_path cv_centre two_files
     (snd (load_image_from_path cv_centre two_files empty_processor ''scan.png'')) ''notes.txt''))
     = None \<and>
   original_image_path (snd (load_image_from_path cv_centre two_files
     (snd (load_image_from_path cv_centre two_files empty_processor ''scan.png'')) ''notes.txt''))
     = Some ''notes.txt'' \<and>
   snd (load_image_from_path cv_centre two_files
     (snd (load_image_from_path cv_centre two_files empty_processor ''scan.png'')) ''notes.txt'')
     \<noteq> snd (load_image_from_path cv_centre two_files empty_processor ''scan.png'')"
  by code_simp


section \<open>Properties of the rotation\<close>

lemma abs_sin_cos_ge_1: "1 \<le> \<bar>sin t\<bar> + \<bar>cos (t :: real)\<bar>"
proof -
  have "(\<bar>sin t\<bar> + \<bar>cos t\<bar>)\<^sup>2 = (sin t)\<^sup>2 + (cos t)\<^sup>2 + 2 * \<bar>sin t\<bar> * \<bar>cos t\<bar>"
    by (simp add: power2_sum)
  also have "\<dots> = 1 + 2 * \<bar>sin t\<bar> * \<bar>cos t\<bar>" by simp
  finally have "1\<^sup>2 \<le> (\<bar>sin t\<bar> + \<bar>cos t\<bar>)\<^sup>2" by simp
  then show ?thesis by (rule power2_le_imp_le) simp
qed

lemma rotated_extent_ge_1:
  assumes "0 < a" "0 < b"
  shows "1 \<le> real a * \<bar>sin t\<bar> + real b * \<bar>cos t\<bar>"
    and "1 \<le> real a * \<bar>cos t\<bar> + real b * \<bar>sin t\<bar>"
proof -
  have a: "1 \<le> real a" and b: "1 \<le> real b" using assms by simp_all
  have "\<bar>sin t\<bar> \<le> real a * \<bar>sin t\<bar>" "\<bar>cos t\<bar> \<le> real b * \<bar>cos t\<bar>"
    "\<bar>cos t\<bar> \<le> real a * \<bar>cos t\<bar>" "\<bar>sin t\<bar> \<le> real b * \<bar>sin t\<bar>"
    using a b by (simp_all add: mult_le_cancel_right1)
  then show "1 \<le> real a * \<bar>sin t\<bar> + real b * \<bar>cos t\<bar>"
    and "1 \<le> real a * \<bar>cos t\<bar> + real b * \<bar>sin t\<bar>"
    using abs_sin_cos_ge_1 [of t] by linarith+
qed

lemma py_int_ge_1: "1 \<le> (x :: real) \<Longrightarrow> 1 \<le> py_int x"
  by (simp add: py_int_def)

lemma width_map_upt_Suc: "width (map f [0..<Suc n]) = length (f 0)"
  by (simp add: width_def upt_conv_Cons del: upt_Suc)

lemma shape2_warpAffine:
  assumes "0 < nh"
  shows "shape2 (warpAffine cv img M (nw, nh)) = (nat nh, nat nw)"
proof -
  obtain n where n: "nat nh = Suc n" using assms by (cases "nat nh") auto
  show ?thesis
    by (cases img) (simp_all add: warpAffine_def height_def n width_map_upt_Suc del: upt_Suc)
qed

lemma rotation_terms:
  "getRotationMatrix2D c a 1 ! 0 ! 0 = cos (a * pi / 180)"
  "getRotationMatrix2D c a 1 ! 0 ! 1 = sin (a * pi / 180)"
  "getRotationMatrix2D c a 1 ! 0 ! Suc 0 = sin (a * pi / 180)"
  by (simp_all add: getRotationMatrix2D_def Let_def split: prod.splits)

lemma rotate_image_shape:
  assumes shape: "shape2 img = (h, w)" and pos: "0 < h" "0 < w" and angle: "angle \<noteq> 0"
  shows "shape2 (rotate_image cv img angle) =
           (nat (py_int (real h * \<bar>cos (of_int angle * pi / 180)\<bar>
                         + real w * \<bar>sin (of_int angle * pi / 180)\<bar>)),
            nat (py_int (real h * \<bar>sin (of_int angle * pi / 180)\<bar>
                         + real w * \<bar>cos (of_int angle * pi / 180)\<bar>)))"
proof -
  have "0 < py_int (real h * \<bar>cos (of_int angle * pi / 180)\<bar>
                    + real w * \<bar>sin (of_int angle * pi / 180)\<bar>)"
    using py_int_ge_1 [OF rotated_extent_ge_1(2) [OF pos, of "of_int angle * pi / 180"]]
    by linarith
  then show ?thesis
    using shape angle
    by (simp add: rotate_image_def Let_def rotation_terms shape2_warpAffine)
qed

text \<open>
  Claim C4, as amended. Rotation by 0 returns its input. For an image of height \<open>h\<close>
  and width \<open>w\<close>, both positive, rotation by a non-zero angle gives a canvas of width
  \<open>int(h*|sin| + w*|cos|)\<close> and height \<open>int(h*|cos| + w*|sin|)\<close>: the fraction is cut
  off, not rounded to the nearest integer. The sine and cosine are the terms of the
  rotation matrix.
\<close>

theorem rotate_image_canvas:
  assumes "shape2 img = (h, w)" and "0 < h" and "0 < w"
  shows "rotate_image cv img 0 = img \<and>
         (angle \<noteq> 0 \<longrightarrow>
            shape2 (rotate_image cv img angle) =
              (nat (py_int (real h * \<bar>cos (of_int angle * pi / 180)\<bar>
                            + real w * \<bar>sin (of_int angle * pi / 180)\<bar>)),
               nat (py_int (real h * \<bar>sin (of_int angle * pi / 180)\<bar>
                            + real w * \<bar>cos (of_int angle * pi / 180)\<bar>))))"
  using rotate_image_shape [OF assms] by (simp add: rotate_image_def)

lemma sqrt2_bounds: "5 / 4 \<le> sqrt 2" "sqrt 2 < 3 / 2"
proof -
  show "5 / 4 \<le> sqrt 2" by (rule real_le_rsqrt) (simp add: power2_eq_square)
  show "sqrt 2 < 3 / 2" by (rule real_less_lsqrt) (simp_all add: power2_eq_square)
qed

lemma deg45: "(45 :: real) * pi / 180 = pi / 4"
  by simp

lemma extent45: "real 2 * \<bar>sin (pi / 4)\<bar> + real 2 * \<bar>cos (pi / 4)\<bar> = 2 * sqrt 2"
  by (simp add: sin_45 cos_45)

lemma floor_2sqrt2: "\<lfloor>2 * sqrt 2\<rfloor> = 2"
  using sqrt2_bounds by (simp add: floor_eq_iff)

lemma round_2sqrt2: "round (2 * sqrt 2) = 3"
  using sqrt2_bounds by (simp add: round_def floor_eq_iff)

theorem rotate_image_canvas_witness:
  "shape2 (rotate_image cv_centre (Gray [[0, 0], [0, 0]]) 45) = (2, 2)"
proof -
  have s: "shape2 (Gray [[0, 0], [0, 0]]) = (2, 2)" by (simp add: height_def width_def)
  have "0 \<le> 2 * sqrt 2" by simp
  then have p: "py_int (2 * sqrt 2) = 2" by (simp add: py_int_def floor_2sqrt2)
  show ?thesis
    using rotate_image_canvas [OF s, of cv_centre 45] extent45 p
    by (simp add: deg45 sin_45 cos_45 add.commute)
qed

text \<open>
  A 2x2 image rotated by 45 degrees: the extent is \<open>2 * sqrt 2\<close>, about 2.83. The code
  makes a 2x2 canvas; rounding to the nearest integer, as claim C4 says, would make it
  3x3.
\<close>

theorem rotated_size_rounding_counterexample:
  "shape2 (rotate_image cv_centre (Gray [[0, 0], [0, 0]]) 45) = (2, 2) \<and>
   spec_rotated_size 2 2 45 = (3, 3)"
proof -
  have s: "shape2 (Gray [[0, 0], [0, 0]]) = (2, 2)" by (simp add: height_def width_def)
  have "0 \<le> 2 * sqrt 2" by simp
  then have p: "py_int (2 * sqrt 2) = 2" by (simp add: py_int_def floor_2sqrt2)
  have a: "shape2 (rotate_image cv_centre (Gray [[0, 0], [0, 0]]) 45) = (2, 2)"
    using rotate_image_shape [OF s, of 45 cv_centre] extent45 p
    by (simp add: deg45 sin_45 cos_45 add.commute)
  have b: "spec_rotated_size 2 2 45 = (3, 3)"
    using round_2sqrt2 by (simp add: spec_rotated_size_def Let_def deg45 sin_45 cos_45)
  show ?thesis using a b by simp
qed


section \<open>Properties of the pipeline\<close>

lemma moire_start_Some: "moire_start cv (Some pre) = Inr (spec_denoise cv pre)"
  by (cases pre) (simp_all add: moire_start_def remove_moire_def spec_denoise_def Let_def)

lemma offsets_gate:
  "list_ex (\<lambda>v. v \<noteq> 0) [a, b, c, d, e, f, g, h :: real]
     = ([a, b, c, d, e, f, g, h] \<noteq> replicate 8 0)"
  by (auto simp: eval_nat_numeral)

lemma crop_gate:
  fixes l t r b :: int
  assumes "0 \<le> l" "0 \<le> t" "r \<le> 100" "b \<le> 100"
  shows "((of_int l / 100 :: rat) > 0 \<or> (of_int t / 100 :: rat) > 0
          \<or> (of_int r / 100 :: rat) < 1 \<or> (of_int b / 100 :: rat) < 1)
         = ((of_int l / 100 :: rat, of_int t / 100 :: rat, of_int r / 100 :: rat, of_int b / 100 :: rat)
              \<noteq> (0, 0, 1, 1))"
  using assms by auto

text \<open>
  Claim C1. With an image loaded and the sliders inside the ranges they are created
  with, a recompute stores as output the spec's pipeline: the start image (the denoise
  of the pre-cleanup copy when the moire switch is on, the baseline image otherwise),
  then perspective warp, rotation, contrast, brightness, sharpening, blur and crop in
  this order, each behind its own gate and each applied to the output of the stage
  before it.
\<close>

theorem update_processed_image_order:
  assumes base: "original_image self = Some baseline"
    and pre: "original_image_old self = Some pre"
    and range: "sliders_in_range ui"
  shows "update_processed_image cv ui self
           = Inr (self\<lparr>processed_image := Some (spec_recompute cv ui pre baseline)\<rparr>)"
proof -
  have crop: "0 \<le> crop_left_slider ui" "0 \<le> crop_top_slider ui"
    "crop_right_slider ui \<le> 100" "crop_bottom_slider ui \<le> 100"
    using range by (simp_all add: sliders_in_range_def)
  show ?thesis
  proof (cases "moire_switch ui")
    case True
    then show ?thesis
      unfolding update_processed_image_def spec_recompute_def spec_stages_def Let_def
      by (simp only: base pre option.case moire_start_Some offsets_gate crop_gate [OF crop]
          sum.case list.map foldl.simps prod.case if_True
          nth_Cons_0 nth_Cons_Suc eval_nat_numeral BitM.simps One_nat_def)
  next
    case False
    then show ?thesis
      unfolding update_processed_image_def spec_recompute_def spec_stages_def Let_def
      by (simp only: base pre option.case moire_start_Some offsets_gate crop_gate [OF crop]
          sum.case list.map foldl.simps prod.case if_False
          nth_Cons_0 nth_Cons_Suc eval_nat_numeral BitM.simps One_nat_def)
  qed
qed

theorem update_processed_image_order_witness:
  "update_processed_image cv_centre bright_crop_widgets scan_loaded
     = Inr (scan_loaded\<lparr>processed_image := Some (Gray [[255]])\<rparr>)"
proof -
  have base: "original_image scan_loaded = Some (Gray [[255, 255]])"
    and pre: "original_image_old scan_loaded = Some (BGR [[10, 200]] [[20, 210]] [[30, 220]])"
    by (simp_all add: scan_loaded_def)
  have range: "sliders_in_range bright_crop_widgets"
    by (simp add: sliders_in_range_def bright_crop_widgets_def default_widgets_def)
  have bright: "adjust_brightness (Gray [[255, 255]]) 10 = Gray [[255, 255]]" by code_simp
  have crop: "apply_crop (Gray [[255, 255]]) (50 / 100) (0 / 100) (100 / 100) (100 / 100)
      = Gray [[255]]" by code_simp
  have run: "spec_recompute cv_centre bright_crop_widgets
      (BGR [[10, 200]] [[20, 210]] [[30, 220]]) (Gray [[255, 255]]) = Gray [[255]]"
    using bright crop
    by (simp add: spec_recompute_def spec_stages_def Let_def bright_crop_widgets_def
        default_widgets_def eval_nat_numeral)
  show ?thesis
    using update_processed_image_order [OF base pre range, of cv_centre] by (simp add: run)
qed

lemma channels_per_channel [simp]: "channels (per_channel f img) = channels img"
  by (cases img) simp_all

lemma channels_stages [simp]:
  "channels (apply_perspective_transform cv img a b c d e f g h) = channels img"
  "channels (rotate_image cv img angle) = channels img"
  "channels (adjust_contrast img contrast) = channels img"
  "channels (adjust_brightness img brightness) = channels img"
  "channels (adjust_sharpness img sharpness) = channels img"
  "channels (apply_blur cv img blur_strength) = channels img"
  "channels (apply_crop img l t r bt) = channels img"
  by (simp_all add: apply_perspective_transform_def warpPerspective_def rotate_image_def
      warpAffine_def adjust_contrast_def adjust_brightness_def convertScaleAbs_def
      adjust_sharpness_def apply_blur_def apply_crop_def Let_def split: prod.splits)

lemma channels_gated:
  "channels (if gp then apply_perspective_transform cv img a b c d e f g h else img) = channels img"
  "channels (if gr then rotate_image cv img angle else img) = channels img"
  "channels (if gc then adjust_contrast img contrast else img) = channels img"
  "channels (if gb then adjust_brightness img brightness else img) = channels img"
  "channels (if gs then adjust_sharpness img sharpness else img) = channels img"
  "channels (if gl then apply_blur cv img blur_strength else img) = channels img"
  "channels (if gx then apply_crop img l t r bt else img) = channels img"
  by simp_all

lemma channels_spec_denoise: "channels (spec_denoise cv pre) = channels pre"
  by (simp add: spec_denoise_def Let_def)

lemma update_channels:
  assumes base: "original_image self = Some baseline"
    and pre: "original_image_old self = Some pre"
  shows "\<exists>out. update_processed_image cv ui self = Inr (self\<lparr>processed_image := Some out\<rparr>) \<and>
           channels out = (if moire_switch ui then channels pre else channels baseline)"
proof (cases "moire_switch ui")
  case True
  show ?thesis
    unfolding update_processed_image_def Let_def
    apply (simp only: base pre option.case moire_start_Some sum.case True if_True)
    apply (rule exI, rule conjI, rule refl)
    apply (simp only: channels_gated channels_spec_denoise)
    done
next
  case False
  show ?thesis
    unfolding update_processed_image_def Let_def
    apply (simp only: base pre option.case sum.case False if_False)
    apply (rule exI, rule conjI, rule refl)
    apply (simp only: channels_gated)
    done
qed

text \<open>
  Claim C9. After a load that succeeds the pre-cleanup copy has three channels, and the
  output of a recompute has three channels when the moire switch is on and one channel
  when it is off, whatever the other widgets say.
\<close>

theorem recompute_channels:
  assumes "load_image_from_path cv fs self0 file_path = (Loaded, self)"
  shows "\<exists>c1 c2 c3 out.
           original_image_old self = Some (BGR c1 c2 c3) \<and>
           update_processed_image cv ui self = Inr (self\<lparr>processed_image := Some out\<rparr>) \<and>
           channels out = (if moire_switch ui then 3 else 1)"
proof -
  from load_Loaded [OF assms] obtain c1 c2 c3 where
    s: "self = self0\<lparr>original_image_path := Some file_path,
                        original_image_old := Some (BGR c1 c2 c3),
                        original_image := Some (Gray (cleanup cv (c1, c2, c3))),
                        processed_image := Some (Gray (cleanup cv (c1, c2, c3)))\<rparr>"
    by blast
  have base: "original_image self = Some (Gray (cleanup cv (c1, c2, c3)))"
    and pre: "original_image_old self = Some (BGR c1 c2 c3)"
    by (simp_all add: s)
  from update_channels [OF base pre, of cv ui] pre show ?thesis by auto
qed

theorem recompute_channels_witness:
  "\<exists>out3 out1.
     update_processed_image cv_centre (default_widgets\<lparr>moire_switch := True\<rparr>) scan_loaded
       = Inr (scan_loaded\<lparr>processed_image := Some out3\<rparr>) \<and> channels out3 = 3 \<and>
     update_processed_image cv_centre default_widgets scan_loaded
       = Inr (scan_loaded\<lparr>processed_image := Some out1\<rparr>) \<and> channels out1 = 1"
proof -
  have ld: "load_image_from_path cv_centre two_files empty_processor ''scan.png''
      = (Loaded, scan_loaded)"
    by code_simp
  have on: "moire_switch (default_widgets\<lparr>moire_switch := True\<rparr>)"
    and off: "\<not> moire_switch default_widgets"
    by (simp_all add: default_widgets_def)
  show ?thesis
    using recompute_channels [OF ld, of "default_widgets\<lparr>moire_switch := True\<rparr>"]
      recompute_channels [OF ld, of default_widgets] on off
    by auto
qed


section \<open>The brightness stage above zero\<close>

lemma cvRound_ge_floor: "\<lfloor>x\<rfloor> \<le> cvRound x"
  by (simp add: cvRound_def Let_def)

lemma saturate_cast_high: "255 \<le> n \<Longrightarrow> saturate_cast n = 255"
  by (simp add: saturate_cast_def)

text \<open>
  Where the sum of sample and offset is not negative, the brightness stage is the spec's
  clamp, rounded to a byte: the absolute value of \<^verbatim>\<open>convertScaleAbs\<close> changes
  nothing there.
\<close>

theorem adjust_brightness_nonnegative:
  "adjust_brightness img brightness =
     per_channel (map (map (\<lambda>s. saturate_cast (cvRound \<bar>sample s + of_int brightness * (255 / 100)\<bar>)))) img \<and>
   (0 \<le> sample s + of_int brightness * (255 / 100) \<longrightarrow>
      saturate_cast (cvRound \<bar>sample s + of_int brightness * (255 / 100)\<bar>)
        = saturate_cast (cvRound (spec_brightness s brightness)))"
proof (intro conjI impI)
  show "adjust_brightness img brightness =
     per_channel (map (map (\<lambda>s. saturate_cast (cvRound \<bar>sample s + of_int brightness * (255 / 100)\<bar>)))) img"
    by (simp add: adjust_brightness_def convertScaleAbs_def Let_def)
next
  let ?v = "sample s + of_int brightness * (255 / 100)"
  assume nn: "0 \<le> ?v"
  show "saturate_cast (cvRound \<bar>?v\<bar>) = saturate_cast (cvRound (spec_brightness s brightness))"
  proof (cases "?v \<le> 255")
    case True
    then show ?thesis using nn by (simp add: spec_brightness_def)
  next
    case False
    then have "255 \<le> \<lfloor>?v\<rfloor>" by (simp add: le_floor_iff)
    then have "255 \<le> cvRound ?v" using cvRound_ge_floor [of ?v] by linarith
    then have "saturate_cast (cvRound ?v) = 255" by (rule saturate_cast_high)
    moreover have "spec_brightness s brightness = 255"
      using False by (simp add: spec_brightness_def)
    moreover have "saturate_cast (cvRound (255 :: rat)) = 255"
      using cvRound_of_int [of 255] by (simp add: saturate_cast_def)
    ultimately show ?thesis using nn by simp
  qed
qed

theorem adjust_brightness_nonnegative_witness:
  "adjust_brightness (Gray [[0, 10, 200]]) 50 = Gray [[128, 138, 255]] \<and>
   saturate_cast (cvRound (spec_brightness 200 50)) = 255"
proof -
  have nn: "0 \<le> sample 200 + of_int 50 * (255 / 100)" by (simp add: sample_def)
  have v: "map (\<lambda>s. saturate_cast (cvRound \<bar>sample s + of_int 50 * (255 / 100)\<bar>)) [0, 10, 200]
      = [128, 138, 255]" by code_simp
  have "saturate_cast (cvRound \<bar>sample 200 + of_int 50 * (255 / 100)\<bar>) = 255" by code_simp
  then show ?thesis
    using adjust_brightness_nonnegative [of "Gray [[0, 10, 200]]" 50 200] nn v by simp
qed

end
